theory Spec2Isabelle
  imports Main "HOL-Library.Word"
begin

section \<open>The realtime service of the messaging client\<close>

text \<open>
  This theory embeds the class \<open>RealtimeService\<close> of \<open>lib/realtime-communication.ts\<close>:
  its fields as a record, its methods as functions from the service to the service, and
  what the class does to the outside world (listener calls, transmissions, timer
  registrations, console errors) as a trace of effects appended in program order.

  What the environment supplies is passed in: the results of \<open>nanoid()\<close>,
  \<open>Date.now()\<close> and \<open>navigator.userAgent\<close> in an \<open>env\<close> record, the result of the
  external \<open>encryptMessage\<close>, which may fail, and the behaviour of the connection-status
  listener, which is user code and may throw.  The transport handshake of \<open>connect\<close> is
  commented out in the source and is no part of the model: the only statement of its
  \<open>try\<close> block that can throw is the call of the listener.  A method that can throw
  returns the error or its value together with the service as the throw or the return
  leaves it.  \<open>sendMessage\<close> is asynchronous and suspends once, at its \<open>await\<close>; it is
  modelled by its two halves.  The registrations of the inbound listeners (\<open>onMessage\<close>,
  \<open>onTyping\<close>, \<open>onPresence\<close>, \<open>onDelivery\<close>, \<open>onRead\<close>) only store a callback that no
  method modelled here reads, and are left out.
\<close>

subsection \<open>Data\<close>

datatype status = Connected | Disconnected | Reconnecting

datatype presence_status = Online | Away | Busy | Offline

datatype message_type = Text | File | Image

datatype message_kind = KMessage | KTyping | KPresence | KDeliveryReceipt | KReadReceipt

record file_data =
  file_url :: string
  file_name :: string
  file_size :: nat
  file_type :: string

datatype payload =
    MessageData string string string message_type "file_data option" nat
  | TypingData bool
  | PresenceData presence_status nat string
  | ReceiptData string nat

text \<open>
  \<open>RealtimeMessage\<close>.  The sender is \<open>this.currentUser!\<close>, which is \<open>null\<close> at run
  time when no \<open>connect\<close> came first, hence an option.
\<close>

record realtime_message =
  msg_id :: string
  msg_type :: message_kind
  msg_from :: "string option"
  msg_to :: string
  msg_data :: payload
  msg_timestamp :: nat

datatype action = MockConnect | SimulateIncoming | Heartbeat | Reconnect

text \<open>A timer registered with \<open>setTimeout\<close> or \<open>setInterval\<close>: its delay in ms and its callback.\<close>

datatype timer = Timeout nat action | Interval nat action

datatype effect =
    StatusChange status
  | Transmit realtime_message
  | SetTimer nat timer
  | ClearTimer nat
  | SocketClose
  | ConsoleError

datatype error = ListenerError | EncryptionError

text \<open>
  How the connection-status listener behaves when it is called: \<open>l st\<close> tells whether its
  call with the status \<open>st\<close> returns normally; otherwise it throws.
\<close>

type_synonym listener = "status \<Rightarrow> bool"

record env =
  fresh_id :: string
  now_data :: nat
  now_msg :: nat
  user_agent :: string

text \<open>
  The fields of the class, then the environment's part: the pending timers by handle, the
  next free handle and the trace.  \<open>socket = Some c\<close> is a socket whose \<open>connected\<close> flag
  is \<open>c\<close>; \<open>onConnectionStatusChange\<close> tells whether a listener is registered.
\<close>

record service =
  socket :: "bool option"
  currentUser :: "string option"
  messageQueue :: "realtime_message list"
  reconnectAttempts :: nat
  maxReconnectAttempts :: nat
  heartbeatInterval :: "nat option"
  onConnectionStatusChange :: bool
  timers :: "(nat \<times> timer) list"
  nextTimer :: nat
  trace :: "effect list"

subsection \<open>Private helpers\<close>

definition emit :: "effect \<Rightarrow> service \<Rightarrow> service" where
  "emit e s = s\<lparr>trace := trace s @ [e]\<rparr>"

text \<open>\<open>this.onConnectionStatusChange?.(st)\<close>\<close>

definition notify :: "status \<Rightarrow> service \<Rightarrow> service" where
  "notify st s = (if onConnectionStatusChange s then emit (StatusChange st) s else s)"

text \<open>
  The same call where a throw of the listener matters to what follows it.  The call is
  made, and recorded, when a listener is registered; it throws when the listener does.
\<close>

definition call_listener :: "listener \<Rightarrow> status \<Rightarrow> service \<Rightarrow> (error + unit) \<times> service" where
  "call_listener l st s =
     (if onConnectionStatusChange s \<and> \<not> l st then Inl ListenerError else Inr (), notify st s)"

definition setTimer :: "timer \<Rightarrow> service \<Rightarrow> nat \<times> service" where
  "setTimer t s =
     (let h = nextTimer s
      in (h, emit (SetTimer h t) (s\<lparr>timers := timers s @ [(h, t)], nextTimer := Suc h\<rparr>)))"

definition clearTimer :: "nat \<Rightarrow> service \<Rightarrow> service" where
  "clearTimer h s = emit (ClearTimer h) (s\<lparr>timers := filter (\<lambda>p. fst p \<noteq> h) (timers s)\<rparr>)"

text \<open>\<open>return this.socket?.connected || true\<close>\<close>

definition isConnected :: "service \<Rightarrow> bool" where
  "isConnected s = ((case socket s of None \<Rightarrow> False | Some c \<Rightarrow> c) \<or> True)"

definition sendRealtimeMessage :: "realtime_message \<Rightarrow> service \<Rightarrow> service" where
  "sendRealtimeMessage m s = emit (Transmit m) s"

text \<open>
  The loop \<open>while (this.messageQueue.length > 0)\<close>: \<open>shift\<close> takes the head of the queue,
  which is an envelope object and so passes the test \<open>if (message)\<close>.
\<close>

function processMessageQueue :: "service \<Rightarrow> service" where
  "processMessageQueue s =
     (case messageQueue s of
        [] \<Rightarrow> s
      | m # rest \<Rightarrow> processMessageQueue (sendRealtimeMessage m (s\<lparr>messageQueue := rest\<rparr>)))"
  by pat_completeness auto
termination
  by (relation "measure (\<lambda>s. length (messageQueue s))")
     (auto simp: sendRealtimeMessage_def emit_def)

definition startHeartbeat :: "service \<Rightarrow> service" where
  "startHeartbeat s =
     (case setTimer (Interval 30000 Heartbeat) s of
        (h, s') \<Rightarrow> s'\<lparr>heartbeatInterval := Some h\<rparr>)"

definition backoff :: "nat \<Rightarrow> nat" where
  "backoff attempts = min (1000 * 2 ^ attempts) 30000"

definition scheduleReconnect :: "service \<Rightarrow> service" where
  "scheduleReconnect s =
     (if reconnectAttempts s < maxReconnectAttempts s then
        (let s1 = s\<lparr>reconnectAttempts := reconnectAttempts s + 1\<rparr>;
             delay = backoff (reconnectAttempts s1)
         in snd (setTimer (Timeout delay Reconnect) s1))
      else s)"

subsection \<open>Public methods\<close>

text \<open>
  The constructor: field initialisers, then \<open>initializeMockConnection\<close>, which registers
  the one-second mock connection timeout and the ten-second inbound simulation interval.
\<close>

definition fields_init :: service where
  "fields_init =
     \<lparr>socket = None, currentUser = None, messageQueue = [], reconnectAttempts = 0,
      maxReconnectAttempts = 5, heartbeatInterval = None, onConnectionStatusChange = False,
      timers = [], nextTimer = 0, trace = []\<rparr>"

definition new_service :: service where
  "new_service =
     snd (setTimer (Interval 10000 SimulateIncoming)
       (snd (setTimer (Timeout 1000 MockConnect) fields_init)))"

definition onConnectionStatus :: "service \<Rightarrow> service" where
  "onConnectionStatus s = s\<lparr>onConnectionStatusChange := True\<rparr>"

text \<open>
  The \<open>try\<close> block of \<open>connect\<close>.  The handshake being commented out, its first
  statement is the call of the listener with \<open>connected\<close>; when that call throws, the
  heartbeat is not started and the queue is not processed.
\<close>

definition connect_try :: "listener \<Rightarrow> service \<Rightarrow> (error + unit) \<times> service" where
  "connect_try l s =
     (case call_listener l Connected s of
        (Inl err, s1) \<Rightarrow> (Inl err, s1)
      | (Inr x, s1) \<Rightarrow> (Inr (), processMessageQueue (startHeartbeat s1)))"

text \<open>
  The \<open>catch\<close> block of \<open>connect\<close>: \<open>console.error\<close>, the call of the listener with
  \<open>disconnected\<close>, and \<open>scheduleReconnect\<close>.  A throw of the listener here leaves
  \<open>connect\<close> before \<open>scheduleReconnect\<close> is called.
\<close>

definition connect_catch :: "listener \<Rightarrow> service \<Rightarrow> (error + unit) \<times> service" where
  "connect_catch l s =
     (case call_listener l Disconnected (emit ConsoleError s) of
        (Inl err, s1) \<Rightarrow> (Inl err, s1)
      | (Inr x, s1) \<Rightarrow> (Inr (), scheduleReconnect s1))"

text \<open>
  \<open>connect\<close>: the assignment to \<open>currentUser\<close>, the \<open>try\<close> block and the \<open>catch\<close>
  block.  The user is an option because the reconnect callback passes
  \<open>this.currentUser!\<close>; the parameter \<open>authToken\<close> is used nowhere in the method.
  The method is declared \<open>async\<close> but awaits nothing: it runs to its end within the call,
  and an error that leaves it is the rejection of the promise it returns.
\<close>

definition connect :: "string option \<Rightarrow> listener \<Rightarrow> service \<Rightarrow> (error + unit) \<times> service" where
  "connect userId l s =
     (case connect_try l (s\<lparr>currentUser := userId\<rparr>) of
        (Inr x, s1) \<Rightarrow> (Inr (), s1)
      | (Inl err, s1) \<Rightarrow> connect_catch l s1)"

text \<open>
  \<open>disconnect\<close>.  Its call of the listener is its last statement: whether that call
  returns or throws, the service is left the same, and \<open>disconnect\<close> is modelled by the
  service it leaves.
\<close>

definition disconnect :: "service \<Rightarrow> service" where
  "disconnect s =
     (let s1 = (case socket s of
                  Some c \<Rightarrow> emit SocketClose (s\<lparr>socket := None\<rparr>)
                | None \<Rightarrow> s);
          s2 = (case heartbeatInterval s1 of
                  Some h \<Rightarrow> (clearTimer h s1)\<lparr>heartbeatInterval := None\<rparr>
                | None \<Rightarrow> s1)
      in notify Disconnected s2)"

definition message_envelope ::
  "env \<Rightarrow> string option \<Rightarrow> string \<Rightarrow> string \<Rightarrow> string \<Rightarrow> message_type \<Rightarrow>
   file_data option \<Rightarrow> realtime_message" where
  "message_envelope e user recipient encrypted nonce mt fd =
     \<lparr>msg_id = fresh_id e, msg_type = KMessage, msg_from = user, msg_to = recipient,
      msg_data = MessageData (fresh_id e) encrypted nonce mt fd (now_data e),
      msg_timestamp = now_msg e\<rparr>"

text \<open>
  \<open>sendMessage\<close> up to its \<open>await\<close>: it draws the message id and starts the encryption
  (\<open>new PublicKey(recipientPublicKey)\<close> and \<open>encryptMessage\<close>, both external), and suspends.
  No field of the service is read or written.  What the suspended call holds on to is the
  id, the recipient, the message type and the file data.
\<close>

record pending_send =
  ps_id :: string
  ps_recipient :: string
  ps_type :: message_type
  ps_file :: "file_data option"

definition sendMessage_start ::
  "env \<Rightarrow> string \<Rightarrow> message_type \<Rightarrow> file_data option \<Rightarrow> pending_send" where
  "sendMessage_start e recipientPublicKey mt fd =
     \<lparr>ps_id = fresh_id e, ps_recipient = recipientPublicKey, ps_type = mt, ps_file = fd\<rparr>"

text \<open>
  \<open>sendMessage\<close> from its \<open>await\<close> on, run when the encryption has settled, maybe after
  other calls on the service.  \<open>result\<close> is the ciphertext and the nonce, or \<open>None\<close> when
  the key constructor or the encryption threw, which the \<open>catch\<close> block logs and throws
  again.  The envelope is built now: the sender is the current user of this moment, and
  \<open>e\<close> supplies the two readings of the clock; the id is the one drawn at the start.
\<close>

definition sendMessage_resume ::
  "(string \<times> string) option \<Rightarrow> env \<Rightarrow> pending_send \<Rightarrow> service \<Rightarrow>
   (error + string) \<times> service" where
  "sendMessage_resume result e p s =
     (case result of
        None \<Rightarrow> (Inl EncryptionError, emit ConsoleError s)
      | Some (encrypted, nonce) \<Rightarrow>
          (let realtimeMessage =
                 message_envelope (e\<lparr>fresh_id := ps_id p\<rparr>) (currentUser s) (ps_recipient p)
                   encrypted nonce (ps_type p) (ps_file p)
           in (Inr (ps_id p),
               if isConnected s then sendRealtimeMessage realtimeMessage s
               else s\<lparr>messageQueue := messageQueue s @ [realtimeMessage]\<rparr>)))"

text \<open>
  A call of \<open>sendMessage\<close> whose encryption settles before anything else runs on the
  service: the two halves back to back.  \<open>encryptMessage\<close> stands for the external function
  together with the key constructor.
\<close>

definition sendMessage ::
  "(string \<Rightarrow> 8 word list \<Rightarrow> string \<Rightarrow> (string \<times> string) option) \<Rightarrow> env \<Rightarrow>
   string \<Rightarrow> string \<Rightarrow> 8 word list \<Rightarrow> message_type \<Rightarrow> file_data option \<Rightarrow>
   service \<Rightarrow> (error + string) \<times> service" where
  "sendMessage encryptMessage e content recipientPublicKey senderPrivateKey mt fd s =
     sendMessage_resume (encryptMessage content senderPrivateKey recipientPublicKey) e
       (sendMessage_start e recipientPublicKey mt fd) s"

definition typing_envelope :: "env \<Rightarrow> string option \<Rightarrow> string \<Rightarrow> bool \<Rightarrow> realtime_message" where
  "typing_envelope e user recipient isTyping =
     \<lparr>msg_id = fresh_id e, msg_type = KTyping, msg_from = user, msg_to = recipient,
      msg_data = TypingData isTyping, msg_timestamp = now_msg e\<rparr>"

definition sendTypingIndicator :: "env \<Rightarrow> string \<Rightarrow> bool \<Rightarrow> service \<Rightarrow> service" where
  "sendTypingIndicator e recipientPublicKey isTyping s =
     (if \<not> isConnected s then s
      else sendRealtimeMessage (typing_envelope e (currentUser s) recipientPublicKey isTyping) s)"

definition presence_envelope :: "env \<Rightarrow> string option \<Rightarrow> presence_status \<Rightarrow> realtime_message" where
  "presence_envelope e user st =
     \<lparr>msg_id = fresh_id e, msg_type = KPresence, msg_from = user, msg_to = ''broadcast'',
      msg_data = PresenceData st (now_data e) (user_agent e), msg_timestamp = now_msg e\<rparr>"

definition updatePresence :: "env \<Rightarrow> presence_status \<Rightarrow> service \<Rightarrow> service" where
  "updatePresence e st s =
     (if \<not> isConnected s then s
      else sendRealtimeMessage (presence_envelope e (currentUser s) st) s)"

definition receipt_envelope ::
  "message_kind \<Rightarrow> env \<Rightarrow> string option \<Rightarrow> string \<Rightarrow> string \<Rightarrow> realtime_message" where
  "receipt_envelope k e user messageId sender =
     \<lparr>msg_id = fresh_id e, msg_type = k, msg_from = user, msg_to = sender,
      msg_data = ReceiptData messageId (now_data e), msg_timestamp = now_msg e\<rparr>"

definition sendDeliveryReceipt :: "env \<Rightarrow> string \<Rightarrow> string \<Rightarrow> service \<Rightarrow> service" where
  "sendDeliveryReceipt e messageId senderPublicKey s =
     (if \<not> isConnected s then s
      else sendRealtimeMessage
             (receipt_envelope KDeliveryReceipt e (currentUser s) messageId senderPublicKey) s)"

definition sendReadReceipt :: "env \<Rightarrow> string \<Rightarrow> string \<Rightarrow> service \<Rightarrow> service" where
  "sendReadReceipt e messageId senderPublicKey s =
     (if \<not> isConnected s then s
      else sendRealtimeMessage
             (receipt_envelope KReadReceipt e (currentUser s) messageId senderPublicKey) s)"

subsection \<open>Timers firing\<close>

text \<open>
  The callbacks handed to \<open>setTimeout\<close> and \<open>setInterval\<close>; \<open>l\<close> is the behaviour of the
  listener while the callback runs.  In the mock connection callback and in the reconnect
  callback a throw of the listener ends the callback.  The inbound simulation only calls
  the \<open>onMessage\<close> listener and touches no field.  The reconnect callback calls \<open>connect\<close>
  without awaiting it; \<open>connect\<close> has no suspension point, so it runs to its end within
  the callback, and a throw of it is not a throw of the callback.
\<close>

definition run_action :: "env \<Rightarrow> listener \<Rightarrow> action \<Rightarrow> service \<Rightarrow> (error + unit) \<times> service" where
  "run_action e l a s =
     (case a of
        MockConnect \<Rightarrow>
          (case call_listener l Connected s of
             (Inl err, s1) \<Rightarrow> (Inl err, s1)
           | (Inr x, s1) \<Rightarrow> (Inr (), startHeartbeat s1))
      | SimulateIncoming \<Rightarrow> (Inr (), s)
      | Heartbeat \<Rightarrow> (Inr (), if isConnected s then updatePresence e Online s else s)
      | Reconnect \<Rightarrow>
          (case call_listener l Reconnecting s of
             (Inl err, s1) \<Rightarrow> (Inl err, s1)
           | (Inr x, s1) \<Rightarrow> (Inr (), snd (connect (currentUser s1) l s1))))"

text \<open>
  The event loop runs the timer with handle \<open>h\<close>: a timeout is spent by firing, an
  interval stays registered; a handle that is not pending fires nothing.
\<close>

definition fire :: "env \<Rightarrow> listener \<Rightarrow> nat \<Rightarrow> service \<Rightarrow> (error + unit) \<times> service" where
  "fire e l h s =
     (case map_of (timers s) h of
        None \<Rightarrow> (Inr (), s)
      | Some (Timeout d a) \<Rightarrow>
          run_action e l a (s\<lparr>timers := filter (\<lambda>p. fst p \<noteq> h) (timers s)\<rparr>)
      | Some (Interval d a) \<Rightarrow> run_action e l a s)"

subsection \<open>Sequences of calls\<close>

text \<open>
  What can happen to the service: a call of a public method, the resumption of a
  suspended \<open>sendMessage\<close>, the firing of a timer.  \<open>CallSendMessage\<close> is a \<open>sendMessage\<close>
  that is not interrupted at its \<open>await\<close>; the start of one that is interrupted changes
  nothing, and \<open>CallSendResume\<close> is its second half.
\<close>

datatype call =
    CallConnect "string option" listener
  | CallDisconnect
  | CallSendMessage env string string "8 word list" message_type "file_data option"
  | CallSendResume "(string \<times> string) option" env pending_send
  | CallSendTypingIndicator env string bool
  | CallUpdatePresence env presence_status
  | CallSendDeliveryReceipt env string string
  | CallSendReadReceipt env string string
  | CallOnConnectionStatus
  | CallFire env listener nat

text \<open>One of them, and the service it leaves, whether it returned or threw.\<close>

fun exec ::
  "(string \<Rightarrow> 8 word list \<Rightarrow> string \<Rightarrow> (string \<times> string) option) \<Rightarrow> call \<Rightarrow> service \<Rightarrow> service"
where
  "exec enc (CallConnect u l) s = snd (connect u l s)"
| "exec enc CallDisconnect s = disconnect s"
| "exec enc (CallSendMessage e c r k mt fd) s = snd (sendMessage enc e c r k mt fd s)"
| "exec enc (CallSendResume result e p) s = snd (sendMessage_resume result e p s)"
| "exec enc (CallSendTypingIndicator e r b) s = sendTypingIndicator e r b s"
| "exec enc (CallUpdatePresence e st) s = updatePresence e st s"
| "exec enc (CallSendDeliveryReceipt e m r) s = sendDeliveryReceipt e m r s"
| "exec enc (CallSendReadReceipt e m r) s = sendReadReceipt e m r s"
| "exec enc CallOnConnectionStatus s = onConnectionStatus s"
| "exec enc (CallFire e l h) s = snd (fire e l h s)"

definition run ::
  "(string \<Rightarrow> 8 word list \<Rightarrow> string \<Rightarrow> (string \<times> string) option) \<Rightarrow> call list \<Rightarrow> service \<Rightarrow> service"
where
  "run enc cs s = foldl (\<lambda>s c. exec enc c s) s cs"

text \<open>
  The events in which a \<open>sendMessage\<close> completes, and the envelope such an event builds
  for a given sender when its encryption has succeeded.
\<close>

fun is_send :: "call \<Rightarrow> bool" where
  "is_send (CallSendMessage e c r k mt fd) = True"
| "is_send (CallSendResume result e p) = True"
| "is_send _ = False"

fun envelope_of ::
  "(string \<Rightarrow> 8 word list \<Rightarrow> string \<Rightarrow> (string \<times> string) option) \<Rightarrow> string option \<Rightarrow> call \<Rightarrow>
   realtime_message list" where
  "envelope_of enc user (CallSendMessage e c r k mt fd) =
     (case enc c k r of
        None \<Rightarrow> []
      | Some (ct, n) \<Rightarrow> [message_envelope e user r ct n mt fd])"
| "envelope_of enc user (CallSendResume result e p) =
     (case result of
        None \<Rightarrow> []
      | Some (ct, n) \<Rightarrow>
          [message_envelope (e\<lparr>fresh_id := ps_id p\<rparr>) user (ps_recipient p) ct n
             (ps_type p) (ps_file p)])"
| "envelope_of enc user _ = []"

subsection \<open>Observations on the trace\<close>

fun transmit_of :: "effect \<Rightarrow> realtime_message list" where
  "transmit_of (Transmit m) = [m]"
| "transmit_of _ = []"

fun status_of :: "effect \<Rightarrow> status list" where
  "status_of (StatusChange st) = [st]"
| "status_of _ = []"

fun reconnect_delay_of :: "effect \<Rightarrow> nat list" where
  "reconnect_delay_of (SetTimer h (Timeout d Reconnect)) = [d]"
| "reconnect_delay_of _ = []"

fun reconnect_handle_of :: "nat \<times> timer \<Rightarrow> nat list" where
  "reconnect_handle_of (h, Timeout d Reconnect) = [h]"
| "reconnect_handle_of _ = []"

text \<open>The envelopes handed to \<open>sendRealtimeMessage\<close> so far, in order.\<close>

definition transmitted :: "service \<Rightarrow> realtime_message list" where
  "transmitted s = concat (map transmit_of (trace s))"

text \<open>The statuses the connection-status listener was called with so far, in order.\<close>

definition notifications :: "service \<Rightarrow> status list" where
  "notifications s = concat (map status_of (trace s))"

text \<open>The delays of the reconnect timeouts registered so far, in order.\<close>

definition reconnect_delays :: "service \<Rightarrow> nat list" where
  "reconnect_delays s = concat (map reconnect_delay_of (trace s))"

text \<open>The handles of the reconnect timeouts that are pending.\<close>

definition pending_reconnects :: "service \<Rightarrow> nat list" where
  "pending_reconnects s = concat (map reconnect_handle_of (timers s))"

subsection \<open>Retries\<close>

text \<open>The pending timers all have handles below the next free handle.\<close>

definition fresh_handles :: "service \<Rightarrow> bool" where
  "fresh_handles s = list_all (\<lambda>p. fst p < nextTimer s) (timers s)"

text \<open>The reconnect timeout that was registered first among the pending ones fires.\<close>

definition retry :: "env \<Rightarrow> listener \<Rightarrow> service \<Rightarrow> service" where
  "retry e l s = (case pending_reconnects s of [] \<Rightarrow> s | h # hs \<Rightarrow> snd (fire e l h s))"

text \<open>
  \<open>n\<close> attempts to connect in a row: a call of \<open>connect\<close>, then \<open>n - 1\<close> times the pending
  retry fires.
\<close>

fun attempts :: "string option \<Rightarrow> env \<Rightarrow> listener \<Rightarrow> nat \<Rightarrow> service \<Rightarrow> service" where
  "attempts u e l 0 s = s"
| "attempts u e l (Suc 0) s = snd (connect u l s)"
| "attempts u e l (Suc (Suc n)) s = retry e l (attempts u e l (Suc n) s)"

subsection \<open>Sample inputs\<close>

definition env0 :: env where
  "env0 = \<lparr>fresh_id = ''id0'', now_data = 100, now_msg = 101, user_agent = ''agent''\<rparr>"

definition env1 :: env where
  "env1 = \<lparr>fresh_id = ''id1'', now_data = 200, now_msg = 201, user_agent = ''agent''\<rparr>"

text \<open>Listeners: one that always returns, one that throws when it is told \<open>connected\<close>, one that always throws.\<close>

definition accepting :: listener where
  "accepting st = True"

definition rejecting :: listener where
  "rejecting st = (st \<noteq> Connected)"

definition throwing :: listener where
  "throwing st = False"

text \<open>
  A recipient that is a public key: the base58 string of thirty-two zero bytes.  The
  stand-in for the encryption succeeds for this recipient and throws for any other string,
  as the key constructor does for a string that is no key.
\<close>

definition system_program :: string where
  "system_program = ''11111111111111111111111111111111''"

definition sample_key :: "8 word list" where
  "sample_key = replicate 32 1"

definition sample_encrypt :: "string \<Rightarrow> 8 word list \<Rightarrow> string \<Rightarrow> (string \<times> string) option" where
  "sample_encrypt content key recipient =
     (if recipient = system_program then Some (content, ''nonce'') else None)"

text \<open>
  Two calls of \<open>sendMessage\<close>, the first with the id \<open>id0\<close> and the second with \<open>id1\<close>, both
  suspended; the encryption of the second settles first.
\<close>

definition two_sends :: "call list" where
  "two_sends =
     [CallSendResume (Some (''yo'', ''nonce'')) env1 (sendMessage_start env1 system_program Text None),
      CallSendResume (Some (''hi'', ''nonce'')) env0 (sendMessage_start env0 system_program Text None)]"

text \<open>A new service with a listener, disconnected before its mock connection timeout is due.\<close>

definition offline_service :: service where
  "offline_service = disconnect (onConnectionStatus new_service)"

text \<open>A service with a listener whose first \<open>connect\<close> has failed: the first retry is pending.\<close>

definition retrying_service :: service where
  "retrying_service =
     run sample_encrypt [CallOnConnectionStatus, CallConnect (Some ''alice'') rejecting] new_service"

text \<open>
  A new service after its first second: the mock connection timeout has fired, which has
  started the heartbeat (handle 2); then a listener is registered.
\<close>

definition started_service :: service where
  "started_service =
     run sample_encrypt [CallFire env0 accepting 0, CallOnConnectionStatus] new_service"

text \<open>
  Five failures in a row on a new service: the mock connection timeout fires; a listener is
  registered that throws when it is told \<open>connected\<close>; \<open>connect\<close> fails; then four times the
  pending retry fires and fails.  The handles 0, 1 and 2 are those of the mock connection
  timeout, the inbound simulation interval and the heartbeat interval, so the reconnect
  timeouts have the handles from 3 on.  The firings of the two intervals in between are
  left out: the inbound simulation touches no field, the heartbeat transmits a presence
  envelope.
\<close>

definition five_failures :: "call list" where
  "five_failures =
     [CallFire env0 accepting 0, CallOnConnectionStatus, CallConnect (Some ''alice'') rejecting,
      CallFire env0 rejecting 3, CallFire env0 rejecting 4, CallFire env0 rejecting 5,
      CallFire env0 rejecting 6]"

text \<open>The service after them: the counter has reached its maximum, the fifth retry is pending.\<close>

definition exhausted_service :: service where
  "exhausted_service = run sample_encrypt five_failures new_service"

text \<open>
  Five failures none of which follows another, on a new service with a listener: the mock
  connection timeout fires, then five times \<open>connect\<close> fails and its retry succeeds.
\<close>

definition fail_and_recover :: "call list" where
  "fail_and_recover =
     [CallOnConnectionStatus, CallFire env0 accepting 0,
      CallConnect (Some ''alice'') rejecting, CallFire env0 accepting 3,
      CallConnect (Some ''alice'') rejecting, CallFire env0 accepting 5,
      CallConnect (Some ''alice'') rejecting, CallFire env0 accepting 7,
      CallConnect (Some ''alice'') rejecting, CallFire env0 accepting 9,
      CallConnect (Some ''alice'') rejecting, CallFire env0 accepting 11]"

section \<open>Basic facts\<close>

declare processMessageQueue.simps [simp del]

lemma processMessageQueue_eq:
  "processMessageQueue s = s\<lparr>messageQueue := [], trace := trace s @ map Transmit (messageQueue s)\<rparr>"
proof (induction s rule: processMessageQueue.induct)
  case (1 s)
  show ?case
  proof (cases "messageQueue s")
    case Nil
    then show ?thesis by (subst processMessageQueue.simps) simp
  next
    case (Cons m rest)
    then show ?thesis
      using "1.IH" [OF Cons]
      by (subst processMessageQueue.simps) (simp add: sendRealtimeMessage_def emit_def)
  qed
qed

lemma isConnected_True [simp]: "isConnected s"
  by (simp add: isConnected_def)

lemma concat_transmit_of [simp]: "concat (map (transmit_of \<circ> Transmit) q) = q"
  by (induction q) simp_all

lemma concat_status_of [simp]: "concat (map (status_of \<circ> Transmit) q) = []"
  by (induction q) simp_all

lemma concat_delay_of [simp]: "concat (map (reconnect_delay_of \<circ> Transmit) q) = []"
  by (induction q) simp_all

lemma emit_fields [simp]:
  "socket (emit x s) = socket s"
  "currentUser (emit x s) = currentUser s"
  "messageQueue (emit x s) = messageQueue s"
  "reconnectAttempts (emit x s) = reconnectAttempts s"
  "maxReconnectAttempts (emit x s) = maxReconnectAttempts s"
  "heartbeatInterval (emit x s) = heartbeatInterval s"
  "onConnectionStatusChange (emit x s) = onConnectionStatusChange s"
  "timers (emit x s) = timers s"
  "nextTimer (emit x s) = nextTimer s"
  "trace (emit x s) = trace s @ [x]"
  by (simp_all add: emit_def)

lemma notify_fields [simp]:
  "socket (notify st s) = socket s"
  "currentUser (notify st s) = currentUser s"
  "messageQueue (notify st s) = messageQueue s"
  "reconnectAttempts (notify st s) = reconnectAttempts s"
  "maxReconnectAttempts (notify st s) = maxReconnectAttempts s"
  "heartbeatInterval (notify st s) = heartbeatInterval s"
  "onConnectionStatusChange (notify st s) = onConnectionStatusChange s"
  "timers (notify st s) = timers s"
  "nextTimer (notify st s) = nextTimer s"
  "trace (notify st s) = trace s @ (if onConnectionStatusChange s then [StatusChange st] else [])"
  by (simp_all add: notify_def)

lemma sendRealtimeMessage_fields [simp]:
  "socket (sendRealtimeMessage m s) = socket s"
  "currentUser (sendRealtimeMessage m s) = currentUser s"
  "messageQueue (sendRealtimeMessage m s) = messageQueue s"
  "reconnectAttempts (sendRealtimeMessage m s) = reconnectAttempts s"
  "maxReconnectAttempts (sendRealtimeMessage m s) = maxReconnectAttempts s"
  "heartbeatInterval (sendRealtimeMessage m s) = heartbeatInterval s"
  "onConnectionStatusChange (sendRealtimeMessage m s) = onConnectionStatusChange s"
  "timers (sendRealtimeMessage m s) = timers s"
  "nextTimer (sendRealtimeMessage m s) = nextTimer s"
  "trace (sendRealtimeMessage m s) = trace s @ [Transmit m]"
  by (simp_all add: sendRealtimeMessage_def)

lemma processMessageQueue_fields [simp]:
  "socket (processMessageQueue s) = socket s"
  "currentUser (processMessageQueue s) = currentUser s"
  "messageQueue (processMessageQueue s) = []"
  "reconnectAttempts (processMessageQueue s) = reconnectAttempts s"
  "maxReconnectAttempts (processMessageQueue s) = maxReconnectAttempts s"
  "heartbeatInterval (processMessageQueue s) = heartbeatInterval s"
  "onConnectionStatusChange (processMessageQueue s) = onConnectionStatusChange s"
  "timers (processMessageQueue s) = timers s"
  "nextTimer (processMessageQueue s) = nextTimer s"
  "trace (processMessageQueue s) = trace s @ map Transmit (messageQueue s)"
  by (simp_all add: processMessageQueue_eq)

lemma startHeartbeat_fields [simp]:
  "socket (startHeartbeat s) = socket s"
  "currentUser (startHeartbeat s) = currentUser s"
  "messageQueue (startHeartbeat s) = messageQueue s"
  "reconnectAttempts (startHeartbeat s) = reconnectAttempts s"
  "maxReconnectAttempts (startHeartbeat s) = maxReconnectAttempts s"
  "heartbeatInterval (startHeartbeat s) = Some (nextTimer s)"
  "onConnectionStatusChange (startHeartbeat s) = onConnectionStatusChange s"
  "timers (startHeartbeat s) = timers s @ [(nextTimer s, Interval 30000 Heartbeat)]"
  "nextTimer (startHeartbeat s) = Suc (nextTimer s)"
  "trace (startHeartbeat s) = trace s @ [SetTimer (nextTimer s) (Interval 30000 Heartbeat)]"
  by (simp_all add: startHeartbeat_def setTimer_def Let_def)

lemma scheduleReconnect_fields [simp]:
  "socket (scheduleReconnect s) = socket s"
  "currentUser (scheduleReconnect s) = currentUser s"
  "messageQueue (scheduleReconnect s) = messageQueue s"
  "reconnectAttempts (scheduleReconnect s) =
     (if reconnectAttempts s < maxReconnectAttempts s then Suc (reconnectAttempts s)
      else reconnectAttempts s)"
  "maxReconnectAttempts (scheduleReconnect s) = maxReconnectAttempts s"
  "heartbeatInterval (scheduleReconnect s) = heartbeatInterval s"
  "onConnectionStatusChange (scheduleReconnect s) = onConnectionStatusChange s"
  "timers (scheduleReconnect s) =
     timers s @ (if reconnectAttempts s < maxReconnectAttempts s
                 then [(nextTimer s, Timeout (backoff (Suc (reconnectAttempts s))) Reconnect)]
                 else [])"
  "nextTimer (scheduleReconnect s) =
     (if reconnectAttempts s < maxReconnectAttempts s then Suc (nextTimer s) else nextTimer s)"
  "trace (scheduleReconnect s) =
     trace s @ (if reconnectAttempts s < maxReconnectAttempts s
                then [SetTimer (nextTimer s) (Timeout (backoff (Suc (reconnectAttempts s))) Reconnect)]
                else [])"
  by (simp_all add: scheduleReconnect_def setTimer_def Let_def)

lemma disconnect_fields [simp]:
  "socket (disconnect s) = None"
  "currentUser (disconnect s) = currentUser s"
  "messageQueue (disconnect s) = messageQueue s"
  "reconnectAttempts (disconnect s) = reconnectAttempts s"
  "maxReconnectAttempts (disconnect s) = maxReconnectAttempts s"
  "heartbeatInterval (disconnect s) = None"
  "onConnectionStatusChange (disconnect s) = onConnectionStatusChange s"
  "timers (disconnect s) =
     (case heartbeatInterval s of None \<Rightarrow> timers s
      | Some h \<Rightarrow> filter (\<lambda>p. fst p \<noteq> h) (timers s))"
  "nextTimer (disconnect s) = nextTimer s"
  by (simp_all add: disconnect_def clearTimer_def Let_def split: option.splits)

lemma disconnect_trace:
  "trace (disconnect s) =
     trace s @ (case socket s of None \<Rightarrow> [] | Some c \<Rightarrow> [SocketClose])
       @ (case heartbeatInterval s of None \<Rightarrow> [] | Some h \<Rightarrow> [ClearTimer h])
       @ (if onConnectionStatusChange s then [StatusChange Disconnected] else [])"
  by (simp add: disconnect_def clearTimer_def Let_def split: option.splits)

lemma disconnect_observed [simp]:
  "transmitted (disconnect s) = transmitted s"
  "reconnect_delays (disconnect s) = reconnect_delays s"
  "notifications (disconnect s) =
     notifications s @ (if onConnectionStatusChange s then [Disconnected] else [])"
  by (auto simp: transmitted_def reconnect_delays_def notifications_def disconnect_trace
      split: option.splits)

lemma call_listener_simps [simp]:
  "fst (call_listener l st s) =
     (if onConnectionStatusChange s \<and> \<not> l st then Inl ListenerError else Inr ())"
  "snd (call_listener l st s) = notify st s"
  by (simp_all add: call_listener_def)

lemma connect_eq:
  "connect u l s =
     (if onConnectionStatusChange s \<and> \<not> l Connected then
        (if l Disconnected then
           (Inr (),
            scheduleReconnect
              (notify Disconnected (emit ConsoleError (notify Connected (s\<lparr>currentUser := u\<rparr>)))))
         else
           (Inl ListenerError,
            notify Disconnected (emit ConsoleError (notify Connected (s\<lparr>currentUser := u\<rparr>)))))
      else
        (Inr (), processMessageQueue (startHeartbeat (notify Connected (s\<lparr>currentUser := u\<rparr>)))))"
  by (simp add: connect_def connect_try_def connect_catch_def call_listener_def)

lemma run_action_eq:
  "run_action e l MockConnect s =
     (if onConnectionStatusChange s \<and> \<not> l Connected then (Inl ListenerError, notify Connected s)
      else (Inr (), startHeartbeat (notify Connected s)))"
  "run_action e l SimulateIncoming s = (Inr (), s)"
  "run_action e l Heartbeat s = (Inr (), updatePresence e Online s)"
  "run_action e l Reconnect s =
     (if onConnectionStatusChange s \<and> \<not> l Reconnecting then (Inl ListenerError, notify Reconnecting s)
      else (Inr (), snd (connect (currentUser s) l (notify Reconnecting s))))"
  by (simp_all add: run_action_def call_listener_def)

lemma observed_update [simp]:
  "transmitted (s\<lparr>currentUser := u\<rparr>) = transmitted s"
  "notifications (s\<lparr>currentUser := u\<rparr>) = notifications s"
  "reconnect_delays (s\<lparr>currentUser := u\<rparr>) = reconnect_delays s"
  "transmitted (s\<lparr>timers := ts\<rparr>) = transmitted s"
  "notifications (s\<lparr>timers := ts\<rparr>) = notifications s"
  "reconnect_delays (s\<lparr>timers := ts\<rparr>) = reconnect_delays s"
  "transmitted (s\<lparr>onConnectionStatusChange := b\<rparr>) = transmitted s"
  "notifications (s\<lparr>onConnectionStatusChange := b\<rparr>) = notifications s"
  "reconnect_delays (s\<lparr>onConnectionStatusChange := b\<rparr>) = reconnect_delays s"
  by (simp_all add: transmitted_def notifications_def reconnect_delays_def)

lemma observed_emit [simp]:
  "transmitted (emit x s) = transmitted s @ transmit_of x"
  "notifications (emit x s) = notifications s @ status_of x"
  "reconnect_delays (emit x s) = reconnect_delays s @ reconnect_delay_of x"
  by (simp_all add: transmitted_def notifications_def reconnect_delays_def)

lemma observed_notify [simp]:
  "transmitted (notify st s) = transmitted s"
  "notifications (notify st s) = notifications s @ (if onConnectionStatusChange s then [st] else [])"
  "reconnect_delays (notify st s) = reconnect_delays s"
  by (simp_all add: transmitted_def notifications_def reconnect_delays_def)

lemma observed_sendRealtimeMessage [simp]:
  "transmitted (sendRealtimeMessage m s) = transmitted s @ [m]"
  "notifications (sendRealtimeMessage m s) = notifications s"
  "reconnect_delays (sendRealtimeMessage m s) = reconnect_delays s"
  by (simp_all add: transmitted_def notifications_def reconnect_delays_def)

lemma observed_processMessageQueue [simp]:
  "transmitted (processMessageQueue s) = transmitted s @ messageQueue s"
  "notifications (processMessageQueue s) = notifications s"
  "reconnect_delays (processMessageQueue s) = reconnect_delays s"
  by (simp_all add: transmitted_def notifications_def reconnect_delays_def)

lemma observed_startHeartbeat [simp]:
  "transmitted (startHeartbeat s) = transmitted s"
  "notifications (startHeartbeat s) = notifications s"
  "reconnect_delays (startHeartbeat s) = reconnect_delays s"
  by (simp_all add: transmitted_def notifications_def reconnect_delays_def)

lemma observed_scheduleReconnect [simp]:
  "transmitted (scheduleReconnect s) = transmitted s"
  "notifications (scheduleReconnect s) = notifications s"
  "reconnect_delays (scheduleReconnect s) =
     reconnect_delays s @ (if reconnectAttempts s < maxReconnectAttempts s
                           then [backoff (Suc (reconnectAttempts s))] else [])"
  by (simp_all add: transmitted_def notifications_def reconnect_delays_def)

lemma new_service_eq:
  "new_service =
     \<lparr>socket = None, currentUser = None, messageQueue = [], reconnectAttempts = 0,
      maxReconnectAttempts = 5, heartbeatInterval = None, onConnectionStatusChange = False,
      timers = [(0, Timeout 1000 MockConnect), (1, Interval 10000 SimulateIncoming)],
      nextTimer = 2,
      trace = [SetTimer 0 (Timeout 1000 MockConnect), SetTimer 1 (Interval 10000 SimulateIncoming)]\<rparr>"
  by (simp add: new_service_def fields_init_def setTimer_def emit_def Let_def numeral_2_eq_2)

lemma observed_new_service [simp]:
  "transmitted new_service = []"
  "notifications new_service = []"
  "reconnect_delays new_service = []"
  by (simp_all add: new_service_eq transmitted_def notifications_def reconnect_delays_def)

lemma sendMessage_resume_eq:
  "sendMessage_resume result e p s =
     (case result of
        None \<Rightarrow> (Inl EncryptionError, emit ConsoleError s)
      | Some (ct, n) \<Rightarrow>
          (Inr (ps_id p),
           sendRealtimeMessage
             (message_envelope (e\<lparr>fresh_id := ps_id p\<rparr>) (currentUser s) (ps_recipient p) ct n
                (ps_type p) (ps_file p)) s))"
  by (simp add: sendMessage_resume_def Let_def split: option.splits)

lemma sendMessage_eq:
  "sendMessage enc e c r k mt fd s =
     (case enc c k r of
        None \<Rightarrow> (Inl EncryptionError, emit ConsoleError s)
      | Some (ct, n) \<Rightarrow>
          (Inr (fresh_id e),
           sendRealtimeMessage (message_envelope e (currentUser s) r ct n mt fd) s))"
  by (simp add: sendMessage_def sendMessage_resume_eq sendMessage_start_def split: option.splits)

lemma senders_eq:
  "sendTypingIndicator e r b s = sendRealtimeMessage (typing_envelope e (currentUser s) r b) s"
  "updatePresence e st s = sendRealtimeMessage (presence_envelope e (currentUser s) st) s"
  "sendDeliveryReceipt e m r s =
     sendRealtimeMessage (receipt_envelope KDeliveryReceipt e (currentUser s) m r) s"
  "sendReadReceipt e m r s =
     sendRealtimeMessage (receipt_envelope KReadReceipt e (currentUser s) m r) s"
  by (simp_all add: sendTypingIndicator_def updatePresence_def sendDeliveryReceipt_def
      sendReadReceipt_def)

lemma run_action_maxReconnectAttempts [simp]:
  "maxReconnectAttempts (snd (run_action e l a s)) = maxReconnectAttempts s"
  by (cases a) (simp_all add: run_action_eq connect_eq senders_eq)

lemma run_action_messageQueue:
  "messageQueue (snd (run_action e l a s)) = messageQueue s \<or>
   messageQueue (snd (run_action e l a s)) = []"
  by (cases a) (simp_all add: run_action_eq connect_eq senders_eq)

lemma run_action_reconnect:
  "(reconnectAttempts (snd (run_action e l a s)) = reconnectAttempts s \<and>
      reconnect_delays (snd (run_action e l a s)) = reconnect_delays s) \<or>
   (reconnectAttempts s < maxReconnectAttempts s \<and>
      reconnectAttempts (snd (run_action e l a s)) = Suc (reconnectAttempts s) \<and>
      reconnect_delays (snd (run_action e l a s)) =
        reconnect_delays s @ [backoff (Suc (reconnectAttempts s))])"
  by (cases a) (simp_all add: run_action_eq connect_eq senders_eq)

lemma run_action_transmitted:
  "\<exists>ms. transmitted (snd (run_action e l a s)) = transmitted s @ ms"
  by (cases a) (simp_all add: run_action_eq connect_eq senders_eq)

lemma fire_maxReconnectAttempts [simp]:
  "maxReconnectAttempts (snd (fire e l h s)) = maxReconnectAttempts s"
  by (simp add: fire_def split: option.splits timer.splits)

lemma fire_messageQueue:
  "messageQueue (snd (fire e l h s)) = messageQueue s \<or> messageQueue (snd (fire e l h s)) = []"
proof (cases "map_of (timers s) h")
  case None
  then show ?thesis by (simp add: fire_def)
next
  case (Some t)
  show ?thesis
  proof (cases t)
    case (Timeout d a)
    with Some run_action_messageQueue [of e l a "s\<lparr>timers := filter (\<lambda>p. fst p \<noteq> h) (timers s)\<rparr>"]
    show ?thesis by (simp add: fire_def)
  next
    case (Interval d a)
    with Some run_action_messageQueue [of e l a s] show ?thesis by (simp add: fire_def)
  qed
qed

lemma fire_reconnect:
  "(reconnectAttempts (snd (fire e l h s)) = reconnectAttempts s \<and>
      reconnect_delays (snd (fire e l h s)) = reconnect_delays s) \<or>
   (reconnectAttempts s < maxReconnectAttempts s \<and>
      reconnectAttempts (snd (fire e l h s)) = Suc (reconnectAttempts s) \<and>
      reconnect_delays (snd (fire e l h s)) =
        reconnect_delays s @ [backoff (Suc (reconnectAttempts s))])"
proof (cases "map_of (timers s) h")
  case None
  then show ?thesis by (simp add: fire_def)
next
  case (Some t)
  show ?thesis
  proof (cases t)
    case (Timeout d a)
    with Some run_action_reconnect [of e l a "s\<lparr>timers := filter (\<lambda>p. fst p \<noteq> h) (timers s)\<rparr>"]
    show ?thesis by (simp add: fire_def)
  next
    case (Interval d a)
    with Some run_action_reconnect [of e l a s] show ?thesis by (simp add: fire_def)
  qed
qed

lemma fire_transmitted: "\<exists>ms. transmitted (snd (fire e l h s)) = transmitted s @ ms"
proof (cases "map_of (timers s) h")
  case None
  then show ?thesis by (simp add: fire_def)
next
  case (Some t)
  show ?thesis
  proof (cases t)
    case (Timeout d a)
    with Some run_action_transmitted [of e l a "s\<lparr>timers := filter (\<lambda>p. fst p \<noteq> h) (timers s)\<rparr>"]
    show ?thesis by (simp add: fire_def)
  next
    case (Interval d a)
    with Some run_action_transmitted [of e l a s] show ?thesis by (simp add: fire_def)
  qed
qed

lemmas call_unfold = connect_eq sendMessage_eq sendMessage_resume_eq senders_eq
  onConnectionStatus_def

lemma exec_maxReconnectAttempts [simp]:
  "maxReconnectAttempts (exec enc c s) = maxReconnectAttempts s"
  by (cases c) (simp_all add: call_unfold split: option.splits)

lemma exec_messageQueue:
  "messageQueue (exec enc c s) = messageQueue s \<or> messageQueue (exec enc c s) = []"
proof (cases c)
  case (CallFire e l h)
  with fire_messageQueue [of e l h s] show ?thesis by simp
qed (simp_all add: call_unfold split: option.splits)

lemma exec_reconnect:
  "(reconnectAttempts (exec enc c s) = reconnectAttempts s \<and>
      reconnect_delays (exec enc c s) = reconnect_delays s) \<or>
   (reconnectAttempts s < maxReconnectAttempts s \<and>
      reconnectAttempts (exec enc c s) = Suc (reconnectAttempts s) \<and>
      reconnect_delays (exec enc c s) = reconnect_delays s @ [backoff (Suc (reconnectAttempts s))])"
proof (cases c)
  case (CallFire e l h)
  with fire_reconnect [of e l h s] show ?thesis by simp
qed (simp_all add: call_unfold split: option.splits)

lemma exec_transmitted: "\<exists>ms. transmitted (exec enc c s) = transmitted s @ ms"
proof (cases c)
  case (CallFire e l h)
  with fire_transmitted [of e l h s] show ?thesis by simp
qed (simp_all add: call_unfold split: option.splits)

lemma run_Nil [simp]: "run enc [] s = s"
  by (simp add: run_def)

lemma run_Cons [simp]: "run enc (c # cs) s = run enc cs (exec enc c s)"
  by (simp add: run_def)

lemma run_append [simp]: "run enc (cs @ ds) s = run enc ds (run enc cs s)"
  by (simp add: run_def)

lemma run_maxReconnectAttempts [simp]:
  "maxReconnectAttempts (run enc cs s) = maxReconnectAttempts s"
  by (induction cs arbitrary: s) simp_all

lemma run_messageQueue:
  "messageQueue (run enc cs s) = messageQueue s \<or> messageQueue (run enc cs s) = []"
proof (induction cs arbitrary: s)
  case Nil
  show ?case by simp
next
  case (Cons c cs)
  from Cons.IH [of "exec enc c s"] exec_messageQueue [of enc c s]
  show ?case by auto
qed

lemma run_transmitted: "\<exists>ms. transmitted (run enc cs s) = transmitted s @ ms"
proof (induction cs arbitrary: s)
  case Nil
  show ?case by simp
next
  case (Cons c cs)
  from Cons.IH [of "exec enc c s"] exec_transmitted [of enc c s]
  show ?case by auto
qed

lemma run_reconnect:
  "reconnectAttempts s \<le> reconnectAttempts (run enc cs s) \<and>
   reconnectAttempts (run enc cs s) \<le> max (reconnectAttempts s) (maxReconnectAttempts s) \<and>
   reconnect_delays (run enc cs s) =
     reconnect_delays s @ map backoff [Suc (reconnectAttempts s) ..< Suc (reconnectAttempts (run enc cs s))]"
proof (induction cs arbitrary: s)
  case Nil
  show ?case by simp
next
  case (Cons c cs)
  let ?s1 = "exec enc c s"
  note IH = Cons.IH [of ?s1]
  from exec_reconnect [of enc c s] show ?case
  proof (elim disjE conjE)
    assume "reconnectAttempts ?s1 = reconnectAttempts s" "reconnect_delays ?s1 = reconnect_delays s"
    with IH show ?thesis by simp
  next
    assume a: "reconnectAttempts s < maxReconnectAttempts s"
      "reconnectAttempts ?s1 = Suc (reconnectAttempts s)"
      "reconnect_delays ?s1 = reconnect_delays s @ [backoff (Suc (reconnectAttempts s))]"
    have le: "Suc (reconnectAttempts s) \<le> reconnectAttempts (run enc cs ?s1)"
      using IH a by simp
    have "[Suc (reconnectAttempts s) ..< Suc (reconnectAttempts (run enc cs ?s1))] =
          Suc (reconnectAttempts s) # [Suc (Suc (reconnectAttempts s)) ..< Suc (reconnectAttempts (run enc cs ?s1))]"
      using le by (simp add: upt_conv_Cons)
    with IH a le show ?thesis by auto
  qed
qed

lemma backoff_mono: "m \<le> n \<Longrightarrow> backoff m \<le> backoff n"
  by (simp add: backoff_def min_le_iff_disj)

lemma backoff_le: "backoff n \<le> 30000"
  by (simp add: backoff_def)

lemma sorted_map_backoff: "sorted (map backoff [i ..< j])"
  by (simp add: sorted_map sorted_wrt_iff_nth_less backoff_mono)

lemma exec_send:
  "is_send c \<Longrightarrow>
     transmitted (exec enc c s) = transmitted s @ envelope_of enc (currentUser s) c \<and>
     messageQueue (exec enc c s) = messageQueue s \<and>
     currentUser (exec enc c s) = currentUser s"
  by (cases c) (simp_all add: sendMessage_eq sendMessage_resume_eq split: option.splits)

lemma run_sends:
  "list_all is_send cs \<Longrightarrow>
     transmitted (run enc cs s) =
       transmitted s @ concat (map (envelope_of enc (currentUser s)) cs) \<and>
     messageQueue (run enc cs s) = messageQueue s \<and>
     currentUser (run enc cs s) = currentUser s"
proof (induction cs arbitrary: s)
  case Nil
  show ?case by simp
next
  case (Cons c cs)
  from Cons.prems have c: "is_send c" and cs: "list_all is_send cs" by simp_all
  from Cons.IH [OF cs, of "exec enc c s"] exec_send [OF c, of enc s] show ?case by simp
qed

lemma run_attempts:
  "reconnectAttempts s \<le> reconnectAttempts (run enc cs s)"
  "reconnectAttempts (run enc cs s) \<le> max (reconnectAttempts s) (maxReconnectAttempts s)"
  using run_reconnect [of s enc cs] by blast+

lemma run_delays:
  "reconnect_delays (run enc cs s) =
     reconnect_delays s @
     map backoff [Suc (reconnectAttempts s) ..< Suc (reconnectAttempts (run enc cs s))]"
  using run_reconnect [of s enc cs] by blast

lemma map_of_filter_fst: "map_of (filter (\<lambda>p. fst p \<noteq> h) ts) h = None"
  by (induction ts) auto

subsection \<open>Failures in a row\<close>

lemma fresh_map_of:
  "list_all (\<lambda>p. fst p < (n::nat)) ts \<Longrightarrow> n \<le> h \<Longrightarrow> map_of ts h = None"
  by (induction ts) auto

lemma fresh_filter:
  "list_all (\<lambda>p. fst p < (n::nat)) ts \<Longrightarrow> n \<le> h \<Longrightarrow> filter (\<lambda>p. fst p \<noteq> h) ts = ts"
  by (induction ts) auto

lemma failed_connect_fields:
  assumes "onConnectionStatusChange s" "\<not> l Connected" "l Disconnected"
  shows "timers (snd (connect u l s)) =
           timers s @ (if reconnectAttempts s < maxReconnectAttempts s
                       then [(nextTimer s, Timeout (backoff (Suc (reconnectAttempts s))) Reconnect)]
                       else [])"
    and "nextTimer (snd (connect u l s)) =
           (if reconnectAttempts s < maxReconnectAttempts s then Suc (nextTimer s) else nextTimer s)"
    and "reconnectAttempts (snd (connect u l s)) =
           (if reconnectAttempts s < maxReconnectAttempts s then Suc (reconnectAttempts s)
            else reconnectAttempts s)"
    and "maxReconnectAttempts (snd (connect u l s)) = maxReconnectAttempts s"
    and "onConnectionStatusChange (snd (connect u l s))"
    and "reconnect_delays (snd (connect u l s)) =
           reconnect_delays s @ (if reconnectAttempts s < maxReconnectAttempts s
                                 then [backoff (Suc (reconnectAttempts s))] else [])"
    and "notifications (snd (connect u l s)) = notifications s @ [Connected, Disconnected]"
    and "transmitted (snd (connect u l s)) = transmitted s"
    and "messageQueue (snd (connect u l s)) = messageQueue s"
    and "heartbeatInterval (snd (connect u l s)) = heartbeatInterval s"
    and "fst (connect u l s) = Inr ()"
  using assms by (simp_all add: connect_eq)

lemma retry_fields:
  assumes reg: "onConnectionStatusChange s" and l: "\<not> l Connected" "l Disconnected" "l Reconnecting"
    and ts: "timers s = ts @ [(h, Timeout d Reconnect)]"
    and fresh: "list_all (\<lambda>p. fst p < h) ts"
    and none: "concat (map reconnect_handle_of ts) = []"
  shows "timers (retry e l s) =
           ts @ (if reconnectAttempts s < maxReconnectAttempts s
                 then [(nextTimer s, Timeout (backoff (Suc (reconnectAttempts s))) Reconnect)]
                 else [])"
    and "nextTimer (retry e l s) =
           (if reconnectAttempts s < maxReconnectAttempts s then Suc (nextTimer s) else nextTimer s)"
    and "reconnectAttempts (retry e l s) =
           (if reconnectAttempts s < maxReconnectAttempts s then Suc (reconnectAttempts s)
            else reconnectAttempts s)"
    and "maxReconnectAttempts (retry e l s) = maxReconnectAttempts s"
    and "onConnectionStatusChange (retry e l s)"
    and "reconnect_delays (retry e l s) =
           reconnect_delays s @ (if reconnectAttempts s < maxReconnectAttempts s
                                 then [backoff (Suc (reconnectAttempts s))] else [])"
    and "notifications (retry e l s) = notifications s @ [Reconnecting, Connected, Disconnected]"
    and "transmitted (retry e l s) = transmitted s"
    and "messageQueue (retry e l s) = messageQueue s"
    and "heartbeatInterval (retry e l s) = heartbeatInterval s"
proof -
  have p: "pending_reconnects s = [h]"
    by (simp add: pending_reconnects_def ts none)
  have m: "map_of (timers s) h = Some (Timeout d Reconnect)"
    using fresh_map_of [OF fresh, of h] by (simp add: ts map_add_def)
  have f: "filter (\<lambda>p. fst p \<noteq> h) (timers s) = ts"
    using fresh_filter [OF fresh, of h] by (simp add: ts)
  let ?s1 = "notify Reconnecting (s\<lparr>timers := ts\<rparr>)"
  have r: "retry e l s = snd (connect (currentUser s) l ?s1)"
    using reg l by (simp add: retry_def p fire_def m f run_action_eq)
  have reg1: "onConnectionStatusChange ?s1"
    using reg by simp
  note c = failed_connect_fields [OF reg1 l(1) l(2), of "currentUser s"]
  show "timers (retry e l s) =
           ts @ (if reconnectAttempts s < maxReconnectAttempts s
                 then [(nextTimer s, Timeout (backoff (Suc (reconnectAttempts s))) Reconnect)]
                 else [])"
    unfolding r c by simp
  show "nextTimer (retry e l s) =
           (if reconnectAttempts s < maxReconnectAttempts s then Suc (nextTimer s) else nextTimer s)"
    unfolding r c by simp
  show "reconnectAttempts (retry e l s) =
           (if reconnectAttempts s < maxReconnectAttempts s then Suc (reconnectAttempts s)
            else reconnectAttempts s)"
    unfolding r c by simp
  show "maxReconnectAttempts (retry e l s) = maxReconnectAttempts s"
    unfolding r c by simp
  show "onConnectionStatusChange (retry e l s)"
    unfolding r using c(5) .
  show "reconnect_delays (retry e l s) =
           reconnect_delays s @ (if reconnectAttempts s < maxReconnectAttempts s
                                 then [backoff (Suc (reconnectAttempts s))] else [])"
    unfolding r c by simp
  show "notifications (retry e l s) = notifications s @ [Reconnecting, Connected, Disconnected]"
    unfolding r c using reg by simp
  show "transmitted (retry e l s) = transmitted s"
    unfolding r c by simp
  show "messageQueue (retry e l s) = messageQueue s"
    unfolding r c by simp
  show "heartbeatInterval (retry e l s) = heartbeatInterval s"
    unfolding r c by simp
qed

lemma concat_replicate_snoc: "concat (replicate (Suc j) xs) = concat (replicate j xs) @ xs"
  by (induction j) simp_all

lemma attempts_fields:
  assumes reg: "onConnectionStatusChange s" and l: "\<not> l Connected" "l Disconnected" "l Reconnecting"
    and fresh: "fresh_handles s" and none: "pending_reconnects s = []"
  shows "reconnectAttempts s + Suc j \<le> maxReconnectAttempts s \<Longrightarrow>
     timers (attempts u e l (Suc j) s) =
       timers s @ [(nextTimer s + j, Timeout (backoff (reconnectAttempts s + Suc j)) Reconnect)] \<and>
     nextTimer (attempts u e l (Suc j) s) = nextTimer s + Suc j \<and>
     reconnectAttempts (attempts u e l (Suc j) s) = reconnectAttempts s + Suc j \<and>
     maxReconnectAttempts (attempts u e l (Suc j) s) = maxReconnectAttempts s \<and>
     onConnectionStatusChange (attempts u e l (Suc j) s) \<and>
     reconnect_delays (attempts u e l (Suc j) s) =
       reconnect_delays s @
       map backoff [Suc (reconnectAttempts s) ..< Suc (reconnectAttempts s + Suc j)] \<and>
     notifications (attempts u e l (Suc j) s) =
       notifications s @ [Connected, Disconnected] @
       concat (replicate j [Reconnecting, Connected, Disconnected]) \<and>
     transmitted (attempts u e l (Suc j) s) = transmitted s \<and>
     messageQueue (attempts u e l (Suc j) s) = messageQueue s"
proof (induction j)
  case 0
  then show ?case
    using failed_connect_fields [OF reg l(1) l(2), of u] by simp
next
  case (Suc j)
  let ?a = "attempts u e l (Suc j) s"
  from Suc.prems have le: "reconnectAttempts s + Suc j \<le> maxReconnectAttempts s" by simp
  note IH = Suc.IH [OF le]
  have lt: "reconnectAttempts ?a < maxReconnectAttempts ?a"
    using IH Suc.prems by simp
  have ts: "timers ?a =
      timers s @ [(nextTimer s + j, Timeout (backoff (reconnectAttempts s + Suc j)) Reconnect)]"
    using IH by blast
  have fr: "list_all (\<lambda>p. fst p < nextTimer s + j) (timers s)"
    using fresh by (auto simp: fresh_handles_def list_all_iff)
  have no: "concat (map reconnect_handle_of (timers s)) = []"
    using none by (simp add: pending_reconnects_def)
  have rega: "onConnectionStatusChange ?a"
    using IH by blast
  note r = retry_fields [OF rega l ts fr no, of e]
  have a: "attempts u e l (Suc (Suc j)) s = retry e l ?a"
    by simp
  have up: "[Suc (reconnectAttempts s) ..< Suc (reconnectAttempts s + Suc (Suc j))] =
            [Suc (reconnectAttempts s) ..< Suc (reconnectAttempts s + Suc j)] @
            [Suc (reconnectAttempts s + Suc j)]"
    by simp
  show ?case
    unfolding a r(1-4,6-10) up concat_replicate_snoc using IH lt r(5)
    by (simp del: upt_Suc attempts.simps replicate.simps)
qed

lemma attempts_last:
  assumes reg: "onConnectionStatusChange s" and l: "\<not> l Connected" "l Disconnected" "l Reconnecting"
    and fresh: "fresh_handles s" and none: "pending_reconnects s = []"
    and full: "reconnectAttempts s + Suc j = maxReconnectAttempts s"
  shows "pending_reconnects (attempts u e l (Suc j) s) = [nextTimer s + j]"
    and "pending_reconnects (attempts u e l (Suc (Suc j)) s) = []"
    and "timers (attempts u e l (Suc (Suc j)) s) = timers s"
    and "reconnect_delays (attempts u e l (Suc (Suc j)) s) =
           reconnect_delays (attempts u e l (Suc j) s)"
    and "reconnectAttempts (attempts u e l (Suc (Suc j)) s) = maxReconnectAttempts s"
    and "notifications (attempts u e l (Suc (Suc j)) s) =
           notifications (attempts u e l (Suc j) s) @ [Reconnecting, Connected, Disconnected]"
proof -
  let ?a = "attempts u e l (Suc j) s"
  from full have le: "reconnectAttempts s + Suc j \<le> maxReconnectAttempts s" by simp
  note A = attempts_fields [OF reg l fresh none le, of u e]
  have ts: "timers ?a =
      timers s @ [(nextTimer s + j, Timeout (backoff (reconnectAttempts s + Suc j)) Reconnect)]"
    using A by blast
  have fr: "list_all (\<lambda>p. fst p < nextTimer s + j) (timers s)"
    using fresh by (auto simp: fresh_handles_def list_all_iff)
  have no: "concat (map reconnect_handle_of (timers s)) = []"
    using none by (simp add: pending_reconnects_def)
  have rega: "onConnectionStatusChange ?a"
    using A by blast
  have eq: "reconnectAttempts ?a = maxReconnectAttempts ?a"
    using A full by simp
  note r = retry_fields [OF rega l ts fr no, of e]
  have a: "attempts u e l (Suc (Suc j)) s = retry e l ?a"
    by simp
  show "pending_reconnects ?a = [nextTimer s + j]"
    by (simp add: pending_reconnects_def ts no)
  show "timers (attempts u e l (Suc (Suc j)) s) = timers s"
    unfolding a r using eq by simp
  then show "pending_reconnects (attempts u e l (Suc (Suc j)) s) = []"
    using none by (simp add: pending_reconnects_def)
  show "reconnect_delays (attempts u e l (Suc (Suc j)) s) = reconnect_delays ?a"
    unfolding a r using eq by simp
  show "reconnectAttempts (attempts u e l (Suc (Suc j)) s) = maxReconnectAttempts s"
    unfolding a r using eq A by simp
  show "notifications (attempts u e l (Suc (Suc j)) s) =
           notifications ?a @ [Reconnecting, Connected, Disconnected]"
    unfolding a r by simp
qed

lemma backoff_values: "map backoff [1 ..< 6] = [2000, 4000, 8000, 16000, 30000]"
  by (simp add: upt_rec backoff_def)

subsection \<open>Evaluating the sample runs\<close>

lemma observed_record [simp]:
  "transmitted \<lparr>socket = a, currentUser = b, messageQueue = c, reconnectAttempts = d,
      maxReconnectAttempts = e, heartbeatInterval = f, onConnectionStatusChange = g,
      timers = h, nextTimer = i, trace = t\<rparr> = concat (map transmit_of t)"
  "notifications \<lparr>socket = a, currentUser = b, messageQueue = c, reconnectAttempts = d,
      maxReconnectAttempts = e, heartbeatInterval = f, onConnectionStatusChange = g,
      timers = h, nextTimer = i, trace = t\<rparr> = concat (map status_of t)"
  "reconnect_delays \<lparr>socket = a, currentUser = b, messageQueue = c, reconnectAttempts = d,
      maxReconnectAttempts = e, heartbeatInterval = f, onConnectionStatusChange = g,
      timers = h, nextTimer = i, trace = t\<rparr> = concat (map reconnect_delay_of t)"
  by (simp_all add: transmitted_def notifications_def reconnect_delays_def)

lemmas eval_simps = new_service_eq call_unfold fire_def run_action_eq backoff_def
  offline_service_def retrying_service_def pending_reconnects_def
  accepting_def rejecting_def throwing_def five_failures_def exhausted_service_def
  fail_and_recover_def started_service_def

lemma exhausted_fields:
  "reconnect_delays exhausted_service = [2000, 4000, 8000, 16000, 30000]"
  "reconnectAttempts exhausted_service = 5"
  "maxReconnectAttempts exhausted_service = 5"
  "onConnectionStatusChange exhausted_service"
  "pending_reconnects exhausted_service = [7]"
  "timers exhausted_service =
     [(1, Interval 10000 SimulateIncoming), (2, Interval 30000 Heartbeat),
      (7, Timeout 30000 Reconnect)]"
  "notifications exhausted_service =
     [Connected, Disconnected, Reconnecting, Connected, Disconnected,
      Reconnecting, Connected, Disconnected, Reconnecting, Connected, Disconnected,
      Reconnecting, Connected, Disconnected]"
  by (simp_all add: eval_simps)

section \<open>The claims\<close>

subsection \<open>Queueing of messages\<close>

text \<open>
  Claim C1 says that envelopes sent while the connection state is not connected are
  appended to the outbound queue.  Counterexample: on a service whose listener has just
  been told \<open>disconnected\<close> and which has no socket, a \<open>sendMessage\<close> to a recipient that
  is a public key returns the id, leaves the queue empty and has transmitted the envelope.
\<close>

theorem send_while_disconnected_counterexample:
  "socket offline_service = None \<and>
   notifications offline_service = [Disconnected] \<and>
   sendMessage sample_encrypt env0 ''hi'' system_program sample_key Text None offline_service =
     (Inr ''id0'',
      sendRealtimeMessage
        (message_envelope env0 None system_program ''hi'' ''nonce'' Text None) offline_service) \<and>
   messageQueue
     (snd (sendMessage sample_encrypt env0 ''hi'' system_program sample_key Text None
             offline_service)) = [] \<and>
   transmitted
     (snd (sendMessage sample_encrypt env0 ''hi'' system_program sample_key Text None
             offline_service)) =
     [message_envelope env0 None system_program ''hi'' ''nonce'' Text None]"
  by (simp add: eval_simps sample_encrypt_def env0_def)

text \<open>
  Claim C1, amended.  In every state of the service, connected or not, \<open>sendMessage\<close>
  never appends to the outbound queue: when its encryption has settled, it transmits its
  envelope at once and returns the id, or throws when the encryption failed.  So the
  envelopes of any sends are transmitted in the order in which their encryptions settle,
  which is the call order when every call has returned before the next is made, and the
  queue is left as it was; no sequence of calls of any kind makes the queue longer.  A
  successful \<open>connect\<close> transmits the envelopes the queue holds, in queue order, and
  empties the queue, and whatever is transmitted by the calls after it comes after them.
\<close>

theorem send_never_queues:
  "(case result of
      None \<Rightarrow>
        fst (sendMessage_resume result e p s) = Inl EncryptionError \<and>
        transmitted (snd (sendMessage_resume result e p s)) = transmitted s
    | Some (ct, n) \<Rightarrow>
        fst (sendMessage_resume result e p s) = Inr (ps_id p) \<and>
        transmitted (snd (sendMessage_resume result e p s)) =
          transmitted s @
          [message_envelope (e\<lparr>fresh_id := ps_id p\<rparr>) (currentUser s) (ps_recipient p) ct n
             (ps_type p) (ps_file p)]) \<and>
   messageQueue (snd (sendMessage_resume result e p s)) = messageQueue s \<and>
   (list_all is_send cs \<longrightarrow>
      transmitted (run enc cs s) =
        transmitted s @ concat (map (envelope_of enc (currentUser s)) cs) \<and>
      messageQueue (run enc cs s) = messageQueue s) \<and>
   length (messageQueue (run enc ds s)) \<le> length (messageQueue s) \<and>
   fst (connect u (l(Connected := True)) s) = Inr () \<and>
   messageQueue (snd (connect u (l(Connected := True)) s)) = [] \<and>
   transmitted (snd (connect u (l(Connected := True)) s)) = transmitted s @ messageQueue s \<and>
   (\<exists>ms. transmitted (run enc ds (snd (connect u (l(Connected := True)) s))) =
           transmitted s @ messageQueue s @ ms)"
proof -
  let ?s1 = "snd (connect u (l(Connected := True)) s)"
  have a: "length (messageQueue (run enc ds s)) \<le> length (messageQueue s)"
    using run_messageQueue [of enc ds s] by auto
  have t: "transmitted ?s1 = transmitted s @ messageQueue s"
    by (simp add: connect_eq)
  obtain ms where "transmitted (run enc ds ?s1) = transmitted ?s1 @ ms"
    using run_transmitted [of enc ds ?s1] by blast
  with t have b: "\<exists>ms. transmitted (run enc ds ?s1) = transmitted s @ messageQueue s @ ms"
    by simp
  have c: "fst (connect u (l(Connected := True)) s) = Inr () \<and> messageQueue ?s1 = []"
    by (simp add: connect_eq)
  have d: "list_all is_send cs \<longrightarrow>
      transmitted (run enc cs s) =
        transmitted s @ concat (map (envelope_of enc (currentUser s)) cs) \<and>
      messageQueue (run enc cs s) = messageQueue s"
    using run_sends [of cs enc s] by blast
  from a b c d t show ?thesis
    by (simp add: sendMessage_resume_eq split: option.splits)
qed

text \<open>
  A witness for C1: two calls of \<open>sendMessage\<close> are made on a service that has no socket
  and whose listener was last told \<open>disconnected\<close>, and the encryption of the second
  settles first.  Both envelopes are transmitted, the second call's before the first
  call's, and the queue stays empty.
\<close>

theorem send_never_queues_witness:
  "list_all is_send two_sends \<and>
   notifications offline_service = [Disconnected] \<and>
   map msg_id (transmitted (run sample_encrypt two_sends offline_service)) = [''id1'', ''id0''] \<and>
   transmitted (run sample_encrypt two_sends offline_service) =
     [message_envelope env1 None system_program ''yo'' ''nonce'' Text None,
      message_envelope env0 None system_program ''hi'' ''nonce'' Text None] \<and>
   messageQueue (run sample_encrypt two_sends offline_service) = []"
proof -
  have h: "list_all is_send two_sends"
    by (simp add: two_sends_def)
  have o: "transmitted offline_service = []" "messageQueue offline_service = []"
    "currentUser offline_service = None" "notifications offline_service = [Disconnected]"
    by (simp_all add: eval_simps)
  have "transmitted (run sample_encrypt two_sends offline_service) =
          transmitted offline_service @
          concat (map (envelope_of sample_encrypt (currentUser offline_service)) two_sends) \<and>
        messageQueue (run sample_encrypt two_sends offline_service) = messageQueue offline_service"
    using h send_never_queues [where s = offline_service and enc = sample_encrypt
        and cs = two_sends]
    by blast
  with h o show ?thesis
    by (simp add: two_sends_def sendMessage_start_def message_envelope_def env0_def env1_def)
qed

text \<open>
  Claim C9.  \<open>isConnected\<close> is true in every state of the service, whatever the socket
  field holds and also when there is no socket.  Hence \<open>sendMessage\<close>, when the encryption
  succeeds, always hands its envelope to \<open>sendRealtimeMessage\<close> and never appends to the
  queue; no sequence of calls ever adds to the queue (each call keeps it or empties it), and
  from a new service the queue stays empty; and \<open>sendTypingIndicator\<close>, \<open>updatePresence\<close>,
  \<open>sendDeliveryReceipt\<close> and \<open>sendReadReceipt\<close> always transmit their envelope, never
  returning early.
\<close>

theorem isConnected_always_true:
  "isConnected s \<and>
   isConnected (s\<lparr>socket := None\<rparr>) \<and>
   isConnected (s\<lparr>socket := Some False\<rparr>) \<and>
   sendMessage enc e c r k mt fd s =
     (case enc c k r of
        None \<Rightarrow> (Inl EncryptionError, emit ConsoleError s)
      | Some (ct, n) \<Rightarrow>
          (Inr (fresh_id e),
           sendRealtimeMessage (message_envelope e (currentUser s) r ct n mt fd) s)) \<and>
   messageQueue (snd (sendMessage enc e c r k mt fd s)) = messageQueue s \<and>
   (messageQueue (run enc cs s) = messageQueue s \<or> messageQueue (run enc cs s) = []) \<and>
   messageQueue (run enc cs new_service) = [] \<and>
   sendTypingIndicator e r b s = sendRealtimeMessage (typing_envelope e (currentUser s) r b) s \<and>
   updatePresence e st s = sendRealtimeMessage (presence_envelope e (currentUser s) st) s \<and>
   sendDeliveryReceipt e m r s =
     sendRealtimeMessage (receipt_envelope KDeliveryReceipt e (currentUser s) m r) s \<and>
   sendReadReceipt e m r s =
     sendRealtimeMessage (receipt_envelope KReadReceipt e (currentUser s) m r) s"
proof -
  have q0: "messageQueue new_service = []"
    by (simp add: new_service_eq)
  have "messageQueue (snd (sendMessage enc e c r k mt fd s)) = messageQueue s"
    by (simp add: sendMessage_eq split: option.splits)
  moreover have "messageQueue (run enc cs new_service) = []"
    using run_messageQueue [of enc cs new_service] q0 by auto
  ultimately show ?thesis
    using run_messageQueue [of enc cs s] by (simp add: sendMessage_eq senders_eq)
qed

text \<open>
  Claim C5 says that \<open>sendTypingIndicator\<close> and \<open>updatePresence\<close> drop their envelope
  while the connection state is not connected.  Counterexample: on a service with no
  socket whose listener has just been told \<open>disconnected\<close> and which has transmitted
  nothing so far, each of the two transmits its envelope.
\<close>

theorem typing_while_disconnected_counterexample:
  "socket offline_service = None \<and>
   notifications offline_service = [Disconnected] \<and>
   transmitted offline_service = [] \<and>
   transmitted (sendTypingIndicator env0 ''bob'' True offline_service) =
     [typing_envelope env0 None ''bob'' True] \<and>
   transmitted (updatePresence env0 Away offline_service) = [presence_envelope env0 None Away]"
  by (simp add: eval_simps)

text \<open>
  Claim C5, amended.  In every state of the service, connected or not,
  \<open>sendTypingIndicator\<close> and \<open>updatePresence\<close> add no entry to the outbound queue, and a
  later successful \<open>connect\<close> transmits only what the queue held, so not their envelope
  again; the envelope is not dropped but transmitted at once.
\<close>

theorem ephemeral_sent_at_once:
  "messageQueue (sendTypingIndicator e r b s) = messageQueue s \<and>
   transmitted (sendTypingIndicator e r b s) =
     transmitted s @ [typing_envelope e (currentUser s) r b] \<and>
   messageQueue (updatePresence e st s) = messageQueue s \<and>
   transmitted (updatePresence e st s) =
     transmitted s @ [presence_envelope e (currentUser s) st] \<and>
   transmitted (snd (connect u (l(Connected := True)) (sendTypingIndicator e r b s))) =
     transmitted s @ [typing_envelope e (currentUser s) r b] @ messageQueue s \<and>
   transmitted (snd (connect u (l(Connected := True)) (updatePresence e st s))) =
     transmitted s @ [presence_envelope e (currentUser s) st] @ messageQueue s"
  by (simp add: senders_eq connect_eq)

subsection \<open>Disconnecting\<close>

text \<open>
  Claim C6 says that two calls of \<open>disconnect\<close> in a row notify the listener once.
  Counterexample: on a new service with a listener registered, the listener has been told
  \<open>disconnected\<close> once after the first call and twice after the second.
\<close>

theorem disconnect_twice_counterexample:
  "notifications (onConnectionStatus new_service) = [] \<and>
   notifications (disconnect (onConnectionStatus new_service)) = [Disconnected] \<and>
   notifications (disconnect (disconnect (onConnectionStatus new_service))) =
     [Disconnected, Disconnected]"
  by (simp add: onConnectionStatus_def)

text \<open>
  Claim C6, amended.  \<open>disconnect\<close> is idempotent on the fields of the service: a second
  call in a row changes no field.  But every call notifies the listener: all the second
  call does is one more \<open>disconnected\<close> notification when a listener is registered, so two
  calls in a row produce two notifications (and none without a listener).
\<close>

theorem disconnect_twice:
  "disconnect (disconnect s) = notify Disconnected (disconnect s) \<and>
   trace (disconnect (disconnect s)) =
     trace (disconnect s) @
     (if onConnectionStatusChange s then [StatusChange Disconnected] else []) \<and>
   notifications (disconnect (disconnect s)) =
     notifications s @ (if onConnectionStatusChange s then [Disconnected, Disconnected] else []) \<and>
   socket (disconnect (disconnect s)) = socket (disconnect s) \<and>
   heartbeatInterval (disconnect (disconnect s)) = heartbeatInterval (disconnect s) \<and>
   timers (disconnect (disconnect s)) = timers (disconnect s) \<and>
   messageQueue (disconnect (disconnect s)) = messageQueue (disconnect s) \<and>
   reconnectAttempts (disconnect (disconnect s)) = reconnectAttempts (disconnect s) \<and>
   currentUser (disconnect (disconnect s)) = currentUser (disconnect s)"
proof -
  have "disconnect (disconnect s) = notify Disconnected (disconnect s)"
    unfolding disconnect_def [of "disconnect s"] by (simp add: Let_def)
  then show ?thesis by simp
qed

text \<open>
  Claim C7 says that after \<open>disconnect\<close> no timer-driven action of the service fires.
  Counterexample: a new service with a listener is disconnected within its first second.
  The mock connection timeout (handle 0) then fires all the same: the listener is told
  \<open>connected\<close> and a heartbeat interval (handle 2) is started, whose firing transmits a
  presence envelope.  Likewise, on a service whose first \<open>connect\<close> failed, the reconnect
  timeout (handle 2) is pending before \<open>disconnect\<close> and after it, and when it fires the
  listener is told \<open>reconnecting\<close> and then \<open>connected\<close>.
\<close>

theorem timers_fire_after_disconnect_counterexample:
  "notifications offline_service = [Disconnected] \<and>
   notifications (exec sample_encrypt (CallFire env0 accepting 0) offline_service) =
     [Disconnected, Connected] \<and>
   heartbeatInterval (exec sample_encrypt (CallFire env0 accepting 0) offline_service) = Some 2 \<and>
   transmitted
     (run sample_encrypt [CallFire env0 accepting 0, CallFire env0 accepting 2] offline_service) =
     [presence_envelope env0 None Online] \<and>
   pending_reconnects retrying_service = [2] \<and>
   pending_reconnects (disconnect retrying_service) = [2] \<and>
   notifications (disconnect retrying_service) = [Connected, Disconnected, Disconnected] \<and>
   notifications (exec sample_encrypt (CallFire env0 accepting 2) (disconnect retrying_service)) =
     [Connected, Disconnected, Disconnected, Reconnecting, Connected]"
  by (simp add: eval_simps)

text \<open>
  Claim C7, amended.  \<open>disconnect\<close> cancels the heartbeat interval whose handle the field
  \<open>heartbeatInterval\<close> holds and clears the field: that handle is no longer pending, and
  firing it does nothing.  The timers registered under other handles are left as they are.
\<close>

theorem disconnect_clears_heartbeat_only:
  "heartbeatInterval (disconnect s) = None \<and>
   timers (disconnect s) =
     (case heartbeatInterval s of
        None \<Rightarrow> timers s
      | Some h \<Rightarrow> filter (\<lambda>p. fst p \<noteq> h) (timers s)) \<and>
   (case heartbeatInterval s of
      None \<Rightarrow> True
    | Some h \<Rightarrow> map_of (timers (disconnect s)) h = None \<and>
               fire e l h (disconnect s) = (Inr (), disconnect s))"
  by (simp add: fire_def map_of_filter_fst split: option.splits)


subsection \<open>Failing connections\<close>

text \<open>
  Claim C8 says that an error during \<open>connect\<close> always becomes a scheduled reconnect, is
  never thrown to the caller, and shows only as a connection-status notification.
  Counterexample: on a service whose counter has reached the maximum, \<open>connect\<close> fails
  (its listener throws when it is told \<open>connected\<close>) and returns, the listener has been
  told \<open>connected\<close> and then \<open>disconnected\<close>, and no timer and no delay is added.  On a new
  service the same failure shows as the two notifications \<open>connected\<close>, \<open>disconnected\<close>;
  and with a listener that throws at every call, \<open>connect\<close> throws and no reconnect is
  pending.
\<close>

theorem connect_failure_counterexample:
  "fst (connect (Some ''alice'') rejecting exhausted_service) = Inr () \<and>
   notifications (snd (connect (Some ''alice'') rejecting exhausted_service)) =
     notifications exhausted_service @ [Connected, Disconnected] \<and>
   timers (snd (connect (Some ''alice'') rejecting exhausted_service)) = timers exhausted_service \<and>
   reconnect_delays (snd (connect (Some ''alice'') rejecting exhausted_service)) =
     reconnect_delays exhausted_service \<and>
   notifications (snd (connect (Some ''alice'') rejecting (onConnectionStatus new_service))) =
     [Connected, Disconnected] \<and>
   fst (connect (Some ''alice'') throwing (onConnectionStatus new_service)) = Inl ListenerError \<and>
   pending_reconnects (snd (connect (Some ''alice'') throwing (onConnectionStatus new_service))) =
     []"
  by (simp add: connect_eq exhausted_fields rejecting_def throwing_def onConnectionStatus_def
      new_service_eq pending_reconnects_def)

text \<open>
  Claim C8, amended.  The \<open>try\<close> block of \<open>connect\<close> fails exactly when a listener is
  registered and throws at its call with \<open>connected\<close> (the transport handshake is
  commented out).  The error is caught: \<open>connect\<close> logs it to the console, calls the
  listener with \<open>disconnected\<close> and then calls \<open>scheduleReconnect\<close>, which registers a
  reconnect timeout only while the counter is below \<open>maxReconnectAttempts\<close>.  The error
  is not thrown to the caller, unless the listener throws again at its call with
  \<open>disconnected\<close>: then \<open>connect\<close> throws and schedules nothing.  Either way the listener
  has been called with \<open>connected\<close> and then with \<open>disconnected\<close>, nothing is transmitted,
  no heartbeat is started, and the queue and the socket are as before.
\<close>

theorem connect_failure_is_caught:
  "fst (connect_try l (s\<lparr>currentUser := u\<rparr>)) =
     (if onConnectionStatusChange s \<and> \<not> l Connected then Inl ListenerError else Inr ()) \<and>
   fst (connect u l s) =
     (if onConnectionStatusChange s \<and> \<not> l Connected \<and> \<not> l Disconnected
      then Inl ListenerError else Inr ()) \<and>
   (onConnectionStatusChange s \<and> \<not> l Connected \<longrightarrow>
      trace (snd (connect u l s)) =
        trace s @ [StatusChange Connected, ConsoleError, StatusChange Disconnected] @
        (if l Disconnected \<and> reconnectAttempts s < maxReconnectAttempts s
         then [SetTimer (nextTimer s) (Timeout (backoff (Suc (reconnectAttempts s))) Reconnect)]
         else []) \<and>
      timers (snd (connect u l s)) =
        timers s @
        (if l Disconnected \<and> reconnectAttempts s < maxReconnectAttempts s
         then [(nextTimer s, Timeout (backoff (Suc (reconnectAttempts s))) Reconnect)]
         else []) \<and>
      reconnectAttempts (snd (connect u l s)) =
        (if l Disconnected \<and> reconnectAttempts s < maxReconnectAttempts s
         then Suc (reconnectAttempts s) else reconnectAttempts s) \<and>
      notifications (snd (connect u l s)) = notifications s @ [Connected, Disconnected] \<and>
      transmitted (snd (connect u l s)) = transmitted s \<and>
      messageQueue (snd (connect u l s)) = messageQueue s \<and>
      heartbeatInterval (snd (connect u l s)) = heartbeatInterval s \<and>
      socket (snd (connect u l s)) = socket s)"
  by (simp add: connect_eq connect_try_def call_listener_def)

text \<open>
  A witness for C8: on a new service with a listener that throws when it is told
  \<open>connected\<close>, \<open>connect\<close> returns, the listener has been told \<open>connected\<close> and
  \<open>disconnected\<close>, and the first retry is registered with a delay of two seconds.
\<close>

theorem connect_failure_is_caught_witness:
  "onConnectionStatusChange (onConnectionStatus new_service) \<and>
   \<not> rejecting Connected \<and>
   fst (connect (Some ''alice'') rejecting (onConnectionStatus new_service)) = Inr () \<and>
   notifications (snd (connect (Some ''alice'') rejecting (onConnectionStatus new_service))) =
     [Connected, Disconnected] \<and>
   timers (snd (connect (Some ''alice'') rejecting (onConnectionStatus new_service))) =
     [(0, Timeout 1000 MockConnect), (1, Interval 10000 SimulateIncoming),
      (2, Timeout 2000 Reconnect)]"
proof -
  let ?s = "onConnectionStatus new_service"
  have h: "onConnectionStatusChange ?s \<and> \<not> rejecting Connected"
    by (simp add: eval_simps)
  have o: "rejecting Disconnected" "reconnectAttempts ?s = 0" "maxReconnectAttempts ?s = 5"
    "nextTimer ?s = 2" "notifications ?s = []"
    "timers ?s = [(0, Timeout 1000 MockConnect), (1, Interval 10000 SimulateIncoming)]"
    by (simp_all add: eval_simps)
  from connect_failure_is_caught [where l = rejecting and s = "?s" and u = "Some ''alice''"] h o
  show ?thesis by (simp add: backoff_def)
qed

text \<open>
  Claim C3 says that every failed connection schedules a retry until \<open>maxAttempts\<close>
  failures have followed one another.  Counterexample: on a new service with a listener the
  mock connection timeout fires, \<open>connect\<close> fails, its retry succeeds and \<open>connect\<close> fails
  again: the second failure, the first after a successful connection, is scheduled with
  the delay of the second attempt.  After five such failures, each followed by a
  successful retry, the status last notified is \<open>connected\<close>; the next failure of
  \<open>connect\<close> schedules no retry at all.
\<close>

theorem retry_after_recovery_counterexample:
  "notifications (run sample_encrypt (take 5 fail_and_recover) new_service) =
     [Connected, Connected, Disconnected, Reconnecting, Connected, Connected, Disconnected] \<and>
   reconnect_delays (run sample_encrypt (take 5 fail_and_recover) new_service) = [2000, 4000] \<and>
   reconnect_delays (run sample_encrypt fail_and_recover new_service) =
     [2000, 4000, 8000, 16000, 30000] \<and>
   pending_reconnects (run sample_encrypt fail_and_recover new_service) = [] \<and>
   last (notifications (run sample_encrypt fail_and_recover new_service)) = Connected \<and>
   pending_reconnects
     (run sample_encrypt (fail_and_recover @ [CallConnect (Some ''alice'') rejecting]) new_service) =
     [] \<and>
   reconnect_delays
     (run sample_encrypt (fail_and_recover @ [CallConnect (Some ''alice'') rejecting]) new_service) =
     [2000, 4000, 8000, 16000, 30000]"
  by (simp add: eval_simps)

text \<open>
  Claim C3, amended.  A failed \<open>connect\<close> schedules a retry only while the reconnect
  counter is below \<open>maxReconnectAttempts\<close>: it increments the counter and registers one
  reconnect timeout whose delay is \<open>min (1000 * 2 ^ attempt) 30000\<close> ms, the attempt being
  the incremented counter.  The counter is 0 on a new service and is never reset, so it
  counts the failures since the service was made, whether they follow one another or not.
  Over every sequence of calls the delays scheduled are those of the attempts from the
  counter's value plus one up to its final value, in this order: they never decrease, none
  exceeds 30000 ms, on a new service they start with attempt 1 and are at most five, and
  once the counter has reached the maximum no further retry is scheduled.
\<close>

theorem backoff_schedule:
  "(onConnectionStatusChange s \<and> \<not> l Connected \<and> l Disconnected \<longrightarrow>
      timers (snd (connect u l s)) =
        timers s @
        (if reconnectAttempts s < maxReconnectAttempts s
         then [(nextTimer s, Timeout (min (1000 * 2 ^ (reconnectAttempts s + 1)) 30000) Reconnect)]
         else []) \<and>
      reconnectAttempts (snd (connect u l s)) =
        (if reconnectAttempts s < maxReconnectAttempts s then reconnectAttempts s + 1
         else reconnectAttempts s)) \<and>
   reconnect_delays (run enc cs s) =
     reconnect_delays s @
     map (\<lambda>k. min (1000 * 2 ^ k) 30000)
       [reconnectAttempts s + 1 ..< reconnectAttempts (run enc cs s) + 1] \<and>
   reconnectAttempts s \<le> reconnectAttempts (run enc cs s) \<and>
   reconnectAttempts (run enc cs s) \<le> max (reconnectAttempts s) (maxReconnectAttempts s) \<and>
   sorted (drop (length (reconnect_delays s)) (reconnect_delays (run enc cs s))) \<and>
   list_all (\<lambda>d. d \<le> 30000)
     (drop (length (reconnect_delays s)) (reconnect_delays (run enc cs s))) \<and>
   (maxReconnectAttempts s \<le> reconnectAttempts s \<longrightarrow>
      reconnect_delays (run enc cs s) = reconnect_delays s) \<and>
   reconnect_delays (run enc cs new_service) =
     map (\<lambda>k. min (1000 * 2 ^ k) 30000) [1 ..< reconnectAttempts (run enc cs new_service) + 1] \<and>
   sorted (reconnect_delays (run enc cs new_service)) \<and>
   length (reconnect_delays (run enc cs new_service)) \<le> 5"
proof -
  have bo: "backoff = (\<lambda>k. min (1000 * 2 ^ k) 30000)"
    by (rule ext) (simp add: backoff_def)
  note r = run_delays [where s = s and enc = enc and cs = cs]
  note r' = run_attempts [where s = s and enc = enc and cs = cs]
  have st: "onConnectionStatusChange s \<and> \<not> l Connected \<and> l Disconnected \<longrightarrow>
      timers (snd (connect u l s)) =
        timers s @
        (if reconnectAttempts s < maxReconnectAttempts s
         then [(nextTimer s, Timeout (backoff (reconnectAttempts s + 1)) Reconnect)]
         else []) \<and>
      reconnectAttempts (snd (connect u l s)) =
        (if reconnectAttempts s < maxReconnectAttempts s then reconnectAttempts s + 1
         else reconnectAttempts s)"
    by (simp add: connect_eq)
  have d: "drop (length (reconnect_delays s)) (reconnect_delays (run enc cs s)) =
           map backoff [Suc (reconnectAttempts s) ..< Suc (reconnectAttempts (run enc cs s))]"
    by (subst r) simp
  have a: "sorted (drop (length (reconnect_delays s)) (reconnect_delays (run enc cs s)))"
    unfolding d by (rule sorted_map_backoff)
  have b: "list_all (\<lambda>d. d \<le> 30000)
             (drop (length (reconnect_delays s)) (reconnect_delays (run enc cs s)))"
    unfolding d by (simp add: list_all_iff backoff_le)
  have c: "maxReconnectAttempts s \<le> reconnectAttempts s \<longrightarrow>
      reconnect_delays (run enc cs s) = reconnect_delays s"
  proof
    assume "maxReconnectAttempts s \<le> reconnectAttempts s"
    with r' have "reconnectAttempts (run enc cs s) = reconnectAttempts s" by simp
    with r show "reconnect_delays (run enc cs s) = reconnect_delays s" by (simp del: upt_Suc)
  qed
  note n = run_delays [where s = new_service and enc = enc and cs = cs]
  note n' = run_attempts [where s = new_service and enc = enc and cs = cs]
  have n0: "reconnectAttempts new_service = 0" "maxReconnectAttempts new_service = 5"
    by (simp_all add: new_service_eq)
  have e: "reconnect_delays (run enc cs new_service) =
     map backoff [1 ..< reconnectAttempts (run enc cs new_service) + 1]"
    using n by (simp add: n0 del: upt_Suc)
  have f: "length (reconnect_delays (run enc cs new_service)) \<le> 5"
    unfolding e using n' by (simp add: n0 del: upt_Suc)
  have g: "sorted (reconnect_delays (run enc cs new_service))"
    unfolding e by (rule sorted_map_backoff)
  show ?thesis
    using st a b c e f g r r' unfolding bo by (simp del: upt_Suc)
qed

text \<open>
  A witness for C3: after five failures in a row on a new service the counter has reached
  the maximum and the delays scheduled are 2, 4, 8, 16 and 30 seconds; a further failure
  of \<open>connect\<close> registers no timer, and the failure of the last retry schedules nothing.
\<close>

theorem backoff_schedule_witness:
  "onConnectionStatusChange exhausted_service \<and>
   \<not> rejecting Connected \<and> rejecting Disconnected \<and>
   maxReconnectAttempts exhausted_service \<le> reconnectAttempts exhausted_service \<and>
   reconnect_delays exhausted_service = [2000, 4000, 8000, 16000, 30000] \<and>
   timers (snd (connect (Some ''alice'') rejecting exhausted_service)) = timers exhausted_service \<and>
   reconnect_delays (run sample_encrypt [CallFire env0 rejecting 7] exhausted_service) =
     [2000, 4000, 8000, 16000, 30000]"
proof -
  have h: "onConnectionStatusChange exhausted_service \<and> \<not> rejecting Connected \<and> rejecting Disconnected"
    "maxReconnectAttempts exhausted_service \<le> reconnectAttempts exhausted_service"
    by (simp_all add: exhausted_fields rejecting_def)
  have "timers (snd (connect (Some ''alice'') rejecting exhausted_service)) =
          timers exhausted_service @
          (if reconnectAttempts exhausted_service < maxReconnectAttempts exhausted_service
           then [(nextTimer exhausted_service,
                  Timeout (min (1000 * 2 ^ (reconnectAttempts exhausted_service + 1)) 30000) Reconnect)]
           else []) \<and>
        reconnect_delays (run sample_encrypt [CallFire env0 rejecting 7] exhausted_service) =
          reconnect_delays exhausted_service"
    using h backoff_schedule [where s = exhausted_service and enc = sample_encrypt
        and cs = "[CallFire env0 rejecting 7]" and u = "Some ''alice''" and l = rejecting]
    by blast
  with h show ?thesis by (simp add: exhausted_fields)
qed

text \<open>
  Claim C2 says that five failures in a row schedule delays of about 1, 2, 4, 8 and 16
  seconds.  Counterexample: on a new service whose mock connection timeout has fired and
  whose listener throws when it is told \<open>connected\<close>, a failed \<open>connect\<close> followed by four
  failed retries schedules 2, 4, 8, 16 and 30 seconds.
\<close>

theorem five_failures_delays_counterexample:
  "reconnect_delays (run sample_encrypt five_failures new_service) =
     [2000, 4000, 8000, 16000, 30000] \<and>
   reconnect_delays (run sample_encrypt five_failures new_service) \<noteq>
     [1000, 2000, 4000, 8000, 16000]"
  by (simp add: eval_simps)

text \<open>
  Claim C2, amended.  Take a service on which no \<open>connect\<close> has failed yet (the counter
  is 0, the maximum is 5, no retry is pending), with a listener that throws when it is told
  \<open>connected\<close> and returns otherwise, so that every attempt to connect fails.  When
  \<open>connect\<close> fails five times in a row, the call and its first four retries, the
  reconnect delays scheduled are 2 s, 4 s, 8 s, 16 s and 30 s, the last of them pending.
  No sixth delay is ever scheduled, whatever calls follow; and when the last retry fails
  too, no reconnect is pending and the status last notified is \<open>disconnected\<close>.  Whatever
  else happens between the failures, a run that takes the counter from 0 to 5 has scheduled
  exactly these five delays.
\<close>

theorem five_failures_delays:
  assumes "onConnectionStatusChange s" "\<not> l Connected" "l Disconnected" "l Reconnecting"
    and "fresh_handles s" "pending_reconnects s = []"
    and "reconnectAttempts s = 0" "maxReconnectAttempts s = 5"
  shows "reconnect_delays (attempts u e l 5 s) =
           reconnect_delays s @ [2000, 4000, 8000, 16000, 30000] \<and>
         pending_reconnects (attempts u e l 5 s) = [nextTimer s + 4] \<and>
         reconnect_delays (run enc cs (attempts u e l 5 s)) =
           reconnect_delays s @ [2000, 4000, 8000, 16000, 30000] \<and>
         reconnect_delays (attempts u e l 6 s) =
           reconnect_delays s @ [2000, 4000, 8000, 16000, 30000] \<and>
         pending_reconnects (attempts u e l 6 s) = [] \<and>
         notifications (attempts u e l 6 s) =
           notifications s @
           [Connected, Disconnected, Reconnecting, Connected, Disconnected,
            Reconnecting, Connected, Disconnected, Reconnecting, Connected, Disconnected,
            Reconnecting, Connected, Disconnected, Reconnecting, Connected, Disconnected] \<and>
         (reconnectAttempts (run enc cs s) = 5 \<longrightarrow>
            reconnect_delays (run enc cs s) =
              reconnect_delays s @ [2000, 4000, 8000, 16000, 30000])"
proof -
  have n: "(5::nat) = Suc 4" "(6::nat) = Suc (Suc 4)"
    by simp_all
  have le: "reconnectAttempts s + Suc 4 \<le> maxReconnectAttempts s"
    and full: "reconnectAttempts s + Suc 4 = maxReconnectAttempts s"
    using assms(7,8) by simp_all
  note A = attempts_fields [OF assms(1-6) le, of u e]
  note L = attempts_last [OF assms(1-6) full, of u e]
  have bv: "map backoff [Suc 0 ..< 6] = [2000, 4000, 8000, 16000, 30000]"
    using backoff_values by simp
  have d5: "reconnect_delays (attempts u e l (Suc 4) s) =
           reconnect_delays s @ [2000, 4000, 8000, 16000, 30000]"
    using A assms(7) bv by (simp del: upt_Suc attempts.simps)
  have c5: "reconnectAttempts (attempts u e l (Suc 4) s) = 5"
    "maxReconnectAttempts (attempts u e l (Suc 4) s) = 5"
    using A assms(7,8) by (simp_all del: attempts.simps)
  have "reconnectAttempts (run enc cs (attempts u e l (Suc 4) s)) = 5"
    using run_attempts [where s = "attempts u e l (Suc 4) s" and enc = enc and cs = cs] c5
    by (simp del: attempts.simps)
  then have r5: "reconnect_delays (run enc cs (attempts u e l (Suc 4) s)) =
           reconnect_delays s @ [2000, 4000, 8000, 16000, 30000]"
    using run_delays [where s = "attempts u e l (Suc 4) s" and enc = enc and cs = cs] c5 d5
    by (simp del: upt_Suc attempts.simps)
  have n6: "notifications (attempts u e l (Suc (Suc 4)) s) =
           notifications s @
           [Connected, Disconnected, Reconnecting, Connected, Disconnected,
            Reconnecting, Connected, Disconnected, Reconnecting, Connected, Disconnected,
            Reconnecting, Connected, Disconnected, Reconnecting, Connected, Disconnected]"
    unfolding L using A by (simp del: attempts.simps add: eval_nat_numeral)
  have g: "reconnectAttempts (run enc cs s) = 5 \<longrightarrow>
            reconnect_delays (run enc cs s) =
              reconnect_delays s @ [2000, 4000, 8000, 16000, 30000]"
    using run_delays [where s = s and enc = enc and cs = cs] assms(7) bv
    by (simp del: upt_Suc)
  show ?thesis
    unfolding n using d5 r5 n6 g L(1,2,4) by (simp del: attempts.simps)
qed

text \<open>
  A witness for C2: a new service after its first second, with a listener that throws when
  it is told \<open>connected\<close>.  The fifth delay is pending under the handle 7; when that retry
  fails too, nothing is pending.
\<close>

theorem five_failures_delays_witness:
  "onConnectionStatusChange started_service \<and>
   \<not> rejecting Connected \<and> rejecting Disconnected \<and> rejecting Reconnecting \<and>
   fresh_handles started_service \<and>
   pending_reconnects started_service = [] \<and>
   reconnectAttempts started_service = 0 \<and>
   maxReconnectAttempts started_service = 5 \<and>
   reconnect_delays (attempts (Some ''alice'') env0 rejecting 5 started_service) =
     [2000, 4000, 8000, 16000, 30000] \<and>
   pending_reconnects (attempts (Some ''alice'') env0 rejecting 5 started_service) = [7] \<and>
   pending_reconnects (attempts (Some ''alice'') env0 rejecting 6 started_service) = [] \<and>
   last (notifications (attempts (Some ''alice'') env0 rejecting 6 started_service)) =
     Disconnected"
proof -
  let ?s = "started_service"
  have h: "onConnectionStatusChange ?s" "\<not> rejecting Connected" "rejecting Disconnected"
    "rejecting Reconnecting" "fresh_handles ?s" "pending_reconnects ?s = []"
    "reconnectAttempts ?s = 0" "maxReconnectAttempts ?s = 5"
    by (simp_all add: eval_simps fresh_handles_def)
  have o: "reconnect_delays ?s = []" "nextTimer ?s = 3"
    by (simp_all add: eval_simps)
  from five_failures_delays [OF h, of "Some ''alice''" env0 sample_encrypt "[]"] h o
  show ?thesis by simp
qed

text \<open>
  Claim C4 says that a successful \<open>connect\<close> resets the reconnect-attempt counter to 0.
  Counterexample: on a service whose first \<open>connect\<close> failed the counter is 1; the retry
  fires and succeeds (the listener is told \<open>connected\<close>), and the counter is still 1, as
  it is after a successful \<open>connect\<close> called directly.
\<close>

theorem counter_not_reset_counterexample:
  "reconnectAttempts retrying_service = 1 \<and>
   notifications retrying_service = [Connected, Disconnected] \<and>
   notifications (exec sample_encrypt (CallFire env0 accepting 2) retrying_service) =
     [Connected, Disconnected, Reconnecting, Connected] \<and>
   reconnectAttempts (exec sample_encrypt (CallFire env0 accepting 2) retrying_service) = 1 \<and>
   reconnectAttempts (snd (connect (Some ''alice'') accepting retrying_service)) = 1 \<and>
   reconnectAttempts (snd (connect (Some ''alice'') accepting retrying_service)) \<noteq> 0"
  by (simp add: eval_simps)

text \<open>
  Claim C4, amended.  A successful \<open>connect\<close> leaves the reconnect-attempt counter as it
  is, and the counter is reset in no situation: no call and no sequence of calls lowers it.
  Hence the retries scheduled over any sequence of calls number the increase of the
  counter, which never passes \<open>maxReconnectAttempts\<close>: after a successful \<open>connect\<close> only
  the retries not yet used are available.
\<close>

theorem counter_never_reset:
  "fst (connect u (l(Connected := True)) s) = Inr () \<and>
   reconnectAttempts (snd (connect u (l(Connected := True)) s)) = reconnectAttempts s \<and>
   reconnectAttempts s \<le> reconnectAttempts (exec enc c s) \<and>
   reconnectAttempts s \<le> reconnectAttempts (run enc cs s) \<and>
   reconnectAttempts (run enc cs s) \<le> max (reconnectAttempts s) (maxReconnectAttempts s) \<and>
   length (reconnect_delays (run enc cs s)) =
     length (reconnect_delays s) + (reconnectAttempts (run enc cs s) - reconnectAttempts s)"
proof -
  have "reconnectAttempts s \<le> reconnectAttempts (exec enc c s)"
    using exec_reconnect [of enc c s] by auto
  moreover have "length (reconnect_delays (run enc cs s)) =
     length (reconnect_delays s) + (reconnectAttempts (run enc cs s) - reconnectAttempts s)"
    by (subst run_delays) (simp del: upt_Suc)
  ultimately show ?thesis
    using run_attempts [where s = s and enc = enc and cs = cs] by (simp add: connect_eq)
qed

end
